theory Spec2Isabelle
  imports Main "HOL-Library.Word" "HOL-Library.Signed_Division"
begin

unbundle bit_operations_syntax

section \<open>Common data: spans, errors, tokens\<close>

text \<open>
  \<^verbatim>\<open>struct Span { line, col }\<close> and \<^verbatim>\<open>CompileError(span, message)\<close> of \<^verbatim>\<open>src/lsc.cpp\<close>.
  Positions are \<^verbatim>\<open>std::size_t\<close>; they are modelled as natural numbers.
\<close>

type_synonym Span = "nat \<times> nat"

datatype CompileError = CompileError Span string

text \<open>Only the token kinds produced by the modelled lexer routines are listed.\<close>

datatype TokenKind = TkId | TkStr | TkInt | TkFloat

record Token =
  kind :: TokenKind
  ttext :: string
  span :: Span

section \<open>Lexer: cursor and \<^verbatim>\<open>readString\<close>\<close>

record Lexer =
  src :: string
  pos :: nat
  line :: nat
  col :: nat

definition eof :: "Lexer \<Rightarrow> bool" where
  "eof L = (pos L \<ge> length (src L))"

text \<open>
  \<^verbatim>\<open>char adv()\<close>: at end of input it returns NUL and leaves the cursor alone; otherwise it
  returns the byte under the cursor and advances, starting a new line after a line feed.
\<close>

definition adv :: "Lexer \<Rightarrow> char \<times> Lexer" where
  "adv L =
     (if eof L then (CHR 0x00, L)
      else let c = src L ! pos L in
        (c, if c = CHR 0x0A
            then L\<lparr>pos := pos L + 1, line := line L + 1, col := 1\<rparr>
            else L\<lparr>pos := pos L + 1, col := col L + 1\<rparr>))"

definition unsupported_escape_msg :: "char \<Rightarrow> string" where
  "unsupported_escape_msg esc = ''unsupported escape sequence '' @ [CHR 0x27, CHR 0x5C, esc, CHR 0x27]"

text \<open>
  The \<^verbatim>\<open>while (!eof())\<close> loop of \<^verbatim>\<open>Lexer::readString\<close>; \<open>s\<close> is the span taken before
  the opening quote, \<open>out\<close> the decoded text so far.  Throwing is the \<open>Inl\<close> branch.
\<close>

function readString_loop :: "Span \<Rightarrow> string \<Rightarrow> Lexer \<Rightarrow> CompileError + (Token \<times> Lexer)" where
  "readString_loop s out L =
     (if eof L then Inl (CompileError s ''unterminated string literal'')
      else
        let c = fst (adv L); L1 = snd (adv L) in
        if c = CHR 0x22 then Inr (\<lparr>kind = TkStr, ttext = out, span = s\<rparr>, L1)
        else if c = CHR 0x5C then
          (if eof L1 then Inl (CompileError s ''unterminated escape sequence in string literal'')
           else
             let esc = fst (adv L1); L2 = snd (adv L1) in
             if esc = CHR ''n'' then readString_loop s (out @ [CHR 0x0A]) L2
             else if esc = CHR ''r'' then readString_loop s (out @ [CHR 0x0D]) L2
             else if esc = CHR ''t'' then readString_loop s (out @ [CHR 0x09]) L2
             else if esc = CHR 0x5C then readString_loop s (out @ [CHR 0x5C]) L2
             else if esc = CHR 0x22 then readString_loop s (out @ [CHR 0x22]) L2
             else Inl (CompileError s (unsupported_escape_msg esc)))
        else if c = CHR 0x0A then Inl (CompileError s ''unterminated string literal'')
        else readString_loop s (out @ [c]) L1)"
  by pat_completeness auto
termination
proof (relation "measure (\<lambda>(s, out, L). length (src L) - pos L)")
  show "wf (measure (\<lambda>(s, out, L). length (src L) - pos L))" by simp
next
  fix s :: Span and out :: string and L :: Lexer and c L1 esc L2
  assume a: "\<not> eof L" "L1 = snd (adv L)" "\<not> eof L1" "L2 = snd (adv L1)"
  from a(1,2) have p1: "pos L1 = Suc (pos L)" "src L1 = src L"
    by (simp_all add: adv_def Let_def)
  from a(3,4) have p2: "pos L2 = Suc (pos L1)" "src L2 = src L1" "pos L1 < length (src L1)"
    by (simp_all add: adv_def Let_def eof_def)
  from p1 p2 have lt: "length (src L2) - pos L2 < length (src L) - pos L" by simp
  show "((s, out @ [CHR 0x0A], L2), s, out, L) \<in> measure (\<lambda>(s, out, L). length (src L) - pos L)"
    using lt by simp
  show "((s, out @ [CHR 0x0D], L2), s, out, L) \<in> measure (\<lambda>(s, out, L). length (src L) - pos L)"
    using lt by simp
  show "((s, out @ [CHR 0x09], L2), s, out, L) \<in> measure (\<lambda>(s, out, L). length (src L) - pos L)"
    using lt by simp
  show "((s, out @ [CHR 0x5C], L2), s, out, L) \<in> measure (\<lambda>(s, out, L). length (src L) - pos L)"
    using lt by simp
  show "((s, out @ [CHR 0x22], L2), s, out, L) \<in> measure (\<lambda>(s, out, L). length (src L) - pos L)"
    using lt by simp
next
  fix s :: Span and out :: string and L :: Lexer and c L1
  assume a: "\<not> eof L" "L1 = snd (adv L)" "c = fst (adv L)"
  then have "pos L1 = Suc (pos L)" "src L1 = src L" "pos L < length (src L)"
    by (simp_all add: adv_def Let_def eof_def)
  then show "((s, out @ [c], L1), s, out, L) \<in> measure (\<lambda>(s, out, L). length (src L) - pos L)"
    by simp
qed

declare readString_loop.simps [simp del]

text \<open>
  \<^verbatim>\<open>Token readString()\<close>: remember the span, skip the opening quote, run the loop.
\<close>

definition readString :: "Lexer \<Rightarrow> CompileError + (Token \<times> Lexer)" where
  "readString L = readString_loop (line L, col L) [] (snd (adv L))"

text \<open>
  The lexical rule for string literals as the specification words it: the escapes
  \<^verbatim>\<open>\n \r \t \\ \"\<close> stand for line feed, carriage return, tab, backslash and quote; every
  other character after a backslash is rejected.
\<close>

definition escape_char :: "char \<Rightarrow> char option" where
  "escape_char e =
     (if e = CHR ''n'' then Some (CHR 0x0A)
      else if e = CHR ''r'' then Some (CHR 0x0D)
      else if e = CHR ''t'' then Some (CHR 0x09)
      else if e = CHR 0x5C then Some (CHR 0x5C)
      else if e = CHR 0x22 then Some (CHR 0x22)
      else None)"

text \<open>
  The text of a literal, read from the bytes that follow its opening quote: \<open>None\<close> when
  the input ends or a raw line feed comes before the closing quote, or when a backslash is
  followed by anything but one of the five escapes (or by nothing).
\<close>

fun string_literal_body :: "string \<Rightarrow> string \<Rightarrow> string option" where
  "string_literal_body [] out = None"
| "string_literal_body [c] out = (if c = CHR 0x22 then Some out else None)"
| "string_literal_body (c # e # cs) out =
     (if c = CHR 0x22 then Some out
      else if c = CHR 0x5C then
        (case escape_char e of None \<Rightarrow> None | Some d \<Rightarrow> string_literal_body cs (out @ [d]))
      else if c = CHR 0x0A then None
      else string_literal_body (e # cs) (out @ [c]))"

section \<open>Machine integers\<close>

text \<open>
  \<^verbatim>\<open>int64_t\<close> values are integers in $[-2^{63}, 2^{63})$; \<open>wrap64\<close> is the two's-complement
  wrap-around of an \<^verbatim>\<open>int64_t\<close> operation.  \<^verbatim>\<open>/\<close> and \<^verbatim>\<open>%\<close> of C++ truncate towards zero:
  they are \<open>sdiv\<close> and \<open>smod\<close>.  A value of type \<^verbatim>\<open>__int128\<close> that is computed from
  \<^verbatim>\<open>int64_t\<close> operands by the few operations of one expression stays far inside 128 bits and
  is modelled by an unbounded integer.
\<close>

definition INT64_MIN :: int where
  "INT64_MIN = - (2 ^ 63)"

definition INT64_MAX :: int where
  "INT64_MAX = 2 ^ 63 - 1"

definition in_i64 :: "int \<Rightarrow> bool" where
  "in_i64 v = (INT64_MIN \<le> v \<and> v \<le> INT64_MAX)"

definition wrap64 :: "int \<Rightarrow> int" where
  "wrap64 x = (x + 2 ^ 63) mod 2 ^ 64 - 2 ^ 63"

text \<open>\<^verbatim>\<open>checkedI128ToI64\<close>: the value when it fits \<^verbatim>\<open>int64_t\<close>, nothing otherwise.\<close>

definition checkedI128ToI64 :: "int \<Rightarrow> int option" where
  "checkedI128ToI64 v =
     (if v < INT64_MIN then None else if v > INT64_MAX then None else Some v)"

definition checkedAddI64 :: "int \<Rightarrow> int \<Rightarrow> int option" where
  "checkedAddI64 a b = checkedI128ToI64 (a + b)"

definition checkedMulI64 :: "int \<Rightarrow> int \<Rightarrow> int option" where
  "checkedMulI64 a b = checkedI128ToI64 (a * b)"

text \<open>\<^verbatim>\<open>std::to_string\<close> of an integer: decimal digits, a minus sign when negative.\<close>

function digits10 :: "nat \<Rightarrow> string" where
  "digits10 n = (if n < 10 then [''0123456789'' ! n] else digits10 (n div 10) @ [''0123456789'' ! (n mod 10)])"
  by pat_completeness auto
termination
  by (relation "measure id") auto

declare digits10.simps [simp del]

definition to_string :: "int \<Rightarrow> string" where
  "to_string v = (if v < 0 then CHR ''-'' # digits10 (nat (- v)) else digits10 (nat v))"

section \<open>The optimizer's trip count\<close>

text \<open>
  \<^verbatim>\<open>tripCount(start, stop, step)\<close> (lines 4406--4415).  All arithmetic is \<^verbatim>\<open>int64_t\<close>
  arithmetic, so every intermediate result is wrapped.
\<close>

definition tripCount :: "int \<Rightarrow> int \<Rightarrow> int \<Rightarrow> int option" where
  "tripCount start stop step =
     (if step = 0 then None
      else if step > 0 then
        (if start \<ge> stop then Some 0
         else Some (wrap64 (wrap64 (wrap64 (wrap64 (stop - start) + step) - 1) sdiv step)))
      else if start \<le> stop then Some 0
      else
        let negStep = wrap64 (- step) in
        Some (wrap64 (wrap64 (wrap64 (wrap64 (start - stop) + negStep) - 1) sdiv negStep)))"

text \<open>
  The trip count of the emitted loop, \<^verbatim>\<open>ls_trip_count_runtime\<close> (lines 6687--6691), which the
  emitter prints into the generated C: the same formula, computed in 128 bits.
\<close>

definition ls_trip_count_runtime :: "int \<Rightarrow> int \<Rightarrow> int \<Rightarrow> int" where
  "ls_trip_count_runtime start stop step =
     (if step > 0 then
        (if start \<ge> stop then 0 else wrap64 ((stop - start + step - 1) sdiv step))
      else if step < 0 then
        (if start \<le> stop then 0
         else let pos = wrap64 (- step) in wrap64 ((start - stop + pos - 1) sdiv pos))
      else 0)"

text \<open>
  The number of times the C loop
  \<^verbatim>\<open>for (int64_t i = start; i < stop; i += step)\<close> (\<^verbatim>\<open>i > stop\<close> for a negative step) that
  the emitter prints for a \<^verbatim>\<open>for\<close> statement runs its body, counted with the given fuel.
\<close>

fun c_for_iterations :: "nat \<Rightarrow> int \<Rightarrow> int \<Rightarrow> int \<Rightarrow> nat option" where
  "c_for_iterations 0 i stop step = None"
| "c_for_iterations (Suc fuel) i stop step =
     (if (step > 0 \<and> i < stop) \<or> (step < 0 \<and> i > stop)
      then map_option Suc (c_for_iterations fuel (wrap64 (i + step)) stop step)
      else Some 0)"

text \<open>The trip count as the specification states it: the ceiling of the quotient.\<close>

definition ceil_div :: "int \<Rightarrow> int \<Rightarrow> int" where
  "ceil_div x y = - ((- x) div y)"

definition trip_count_spec :: "int \<Rightarrow> int \<Rightarrow> int \<Rightarrow> int option" where
  "trip_count_spec a b s =
     (if s > 0 then Some (if a \<ge> b then 0 else ceil_div (b - a) s)
      else if s < 0 then Some (if a \<le> b then 0 else ceil_div (a - b) (- s))
      else None)"

section \<open>The intermediate representation\<close>

text \<open>
  \<^verbatim>\<open>enum class Type\<close>, \<^verbatim>\<open>UK\<close>, \<^verbatim>\<open>BK\<close> and the expression and statement classes
  (lines 500--660).  A \<^verbatim>\<open>double\<close> literal is kept as its 64 bits.  Expressions carry no span
  in the model (no modelled function reads it); statements do.  The annotation fields
  \<^verbatim>\<open>inf\<close> and \<^verbatim>\<open>typed\<close> are left out.  The operators \<^verbatim>\<open>UK::Not\<close> and \<^verbatim>\<open>BK::Pow\<close> are
  written \<open>LNot\<close> and \<open>Power\<close>.
\<close>

datatype Type = I32 | I64 | F32 | F64 | Bool | Str | Void

datatype UK = Neg | LNot

datatype BK = Add | Sub | Mul | Div | Mod | Power | Eq | Neq | Lt | Lte | Gt | Gte | And | Or

datatype Expr =
    EInt int
  | EFloat "64 word"
  | EBool bool
  | EString string
  | EVar string
  | EUnary UK Expr string
  | EBinary BK Expr Expr string
  | ECall string "Expr list"

text \<open>
  \<open>SLet n decl isConst isOwned ownedFreeFn v s\<close>, \<open>SAssign n v s\<close>, \<open>SExpr e s\<close>,
  \<open>SRet has v s\<close>, \<open>SIf c t e s\<close>, \<open>SWhile c b s\<close>,
  \<open>SFor n start stop step parallel b s\<close>, \<open>SFormatBlock endArg b s\<close>.
\<close>

datatype Stmt =
    SLet string "Type option" bool bool string Expr Span
  | SAssign string Expr Span
  | SExpr Expr Span
  | SRet bool "Expr option" Span
  | SIf Expr "Stmt list" "Stmt list" Span
  | SWhile Expr "Stmt list" Span
  | SFor string Expr Expr Expr bool "Stmt list" Span
  | SFormatBlock "Expr option" "Stmt list" Span
  | SBreak Span
  | SContinue Span

section \<open>Optimizer: reading and purity of expressions\<close>

text \<open>\<^verbatim>\<open>exprHasVarName\<close> (lines 4518--4537).\<close>

fun exprHasVarName :: "Expr \<Rightarrow> string \<Rightarrow> bool"
  and exprsHaveVarName :: "Expr list \<Rightarrow> string \<Rightarrow> bool" where
  "exprHasVarName (EVar n) name = (n = name)"
| "exprHasVarName (EUnary op x ov) name = exprHasVarName x name"
| "exprHasVarName (EBinary op l r ov) name = (exprHasVarName l name \<or> exprHasVarName r name)"
| "exprHasVarName (ECall f a) name = exprsHaveVarName a name"
| "exprHasVarName (EInt v) name = False"
| "exprHasVarName (EFloat v) name = False"
| "exprHasVarName (EBool v) name = False"
| "exprHasVarName (EString v) name = False"
| "exprsHaveVarName [] name = False"
| "exprsHaveVarName (x # xs) name = (exprHasVarName x name \<or> exprsHaveVarName xs name)"

text \<open>\<^verbatim>\<open>exprTrivialNoSideEffects\<close> (lines 5034--5055).\<close>

fun exprTrivialNoSideEffects :: "Expr \<Rightarrow> bool" where
  "exprTrivialNoSideEffects (EInt v) = True"
| "exprTrivialNoSideEffects (EFloat v) = True"
| "exprTrivialNoSideEffects (EBool v) = True"
| "exprTrivialNoSideEffects (EString v) = True"
| "exprTrivialNoSideEffects (EVar n) = True"
| "exprTrivialNoSideEffects (EUnary op x ov) = exprTrivialNoSideEffects x"
| "exprTrivialNoSideEffects (EBinary op l r ov) =
     (if ov \<noteq> [] then False
      else if op = Div \<or> op = Mod \<or> op = Power then False
      else exprTrivialNoSideEffects l \<and> exprTrivialNoSideEffects r)"
| "exprTrivialNoSideEffects (ECall f a) = False"

text \<open>
  \<^verbatim>\<open>stmtReadsNamed\<close> and \<^verbatim>\<open>blockReadsNamed\<close> (lines 5057--5109); the block version is
  applied to the statements from index \<open>from\<close> on, that is to \<open>drop from b\<close>.
\<close>

fun stmtReadsNamed :: "Stmt \<Rightarrow> string \<Rightarrow> bool"
  and stmtsReadNamed :: "Stmt list \<Rightarrow> string \<Rightarrow> bool" where
  "stmtReadsNamed (SLet n decl isConst isOwned fr v s) name = exprHasVarName v name"
| "stmtReadsNamed (SAssign n v s) name = exprHasVarName v name"
| "stmtReadsNamed (SExpr e s) name = exprHasVarName e name"
| "stmtReadsNamed (SRet has v s) name =
     (case v of None \<Rightarrow> False | Some e \<Rightarrow> has \<and> exprHasVarName e name)"
| "stmtReadsNamed (SIf c t e s) name =
     (stmtsReadNamed t name \<or> stmtsReadNamed e name \<or> exprHasVarName c name)"
| "stmtReadsNamed (SWhile c b s) name = (exprHasVarName c name \<or> stmtsReadNamed b name)"
| "stmtReadsNamed (SFor n start stop step par b s) name =
     (exprHasVarName start name \<or> exprHasVarName stop name \<or> exprHasVarName step name
      \<or> stmtsReadNamed b name)"
| "stmtReadsNamed (SFormatBlock endArg b s) name =
     ((case endArg of None \<Rightarrow> False | Some e \<Rightarrow> exprHasVarName e name) \<or> stmtsReadNamed b name)"
| "stmtReadsNamed (SBreak s) name = False"
| "stmtReadsNamed (SContinue s) name = False"
| "stmtsReadNamed [] name = False"
| "stmtsReadNamed (x # xs) name = (stmtReadsNamed x name \<or> stmtsReadNamed xs name)"

definition blockReadsNamed :: "Stmt list \<Rightarrow> nat \<Rightarrow> string \<Rightarrow> bool" where
  "blockReadsNamed b from name = stmtsReadNamed (drop from b) name"

section \<open>Optimizer: dead-store elimination\<close>

text \<open>
  \<^verbatim>\<open>pruneDeadLocalStores\<close> (lines 5111--5161).  The C++ loop walks the vector with an index and
  erases in place; statement \<open>i\<close> is judged against the statements after it, which the loop
  has not touched yet.  In the model the head of the list is judged against its tail, and the
  result pairs the \<^verbatim>\<open>changed\<close> flag with the pruned block.
\<close>

fun pruneDeadLocalStores :: "Stmt list \<Rightarrow> bool \<times> Stmt list" where
  "pruneDeadLocalStores [] = (False, [])"
| "pruneDeadLocalStores (SLet n decl isConst isOwned fr v s # rest) =
     (if exprTrivialNoSideEffects v \<and> \<not> blockReadsNamed rest 0 n
      then (True, snd (pruneDeadLocalStores rest))
      else (fst (pruneDeadLocalStores rest), SLet n decl isConst isOwned fr v s # snd (pruneDeadLocalStores rest)))"
| "pruneDeadLocalStores (SAssign n v s # rest) =
     (if exprTrivialNoSideEffects v \<and> \<not> blockReadsNamed rest 0 n
      then (True, snd (pruneDeadLocalStores rest))
      else (fst (pruneDeadLocalStores rest), SAssign n v s # snd (pruneDeadLocalStores rest)))"
| "pruneDeadLocalStores (SExpr e s # rest) =
     (if exprTrivialNoSideEffects e
      then (True, snd (pruneDeadLocalStores rest))
      else (fst (pruneDeadLocalStores rest), SExpr e s # snd (pruneDeadLocalStores rest)))"
| "pruneDeadLocalStores (SIf c t e s # rest) =
     (fst (pruneDeadLocalStores t) \<or> fst (pruneDeadLocalStores e) \<or> fst (pruneDeadLocalStores rest),
      SIf c (snd (pruneDeadLocalStores t)) (snd (pruneDeadLocalStores e)) s # snd (pruneDeadLocalStores rest))"
| "pruneDeadLocalStores (SWhile c b s # rest) =
     (fst (pruneDeadLocalStores rest), SWhile c b s # snd (pruneDeadLocalStores rest))"
| "pruneDeadLocalStores (SFor n start stop step par b s # rest) =
     (fst (pruneDeadLocalStores rest), SFor n start stop step par b s # snd (pruneDeadLocalStores rest))"
| "pruneDeadLocalStores (SFormatBlock endArg b s # rest) =
     (fst (pruneDeadLocalStores rest), SFormatBlock endArg b s # snd (pruneDeadLocalStores rest))"
| "pruneDeadLocalStores (SRet has v s # rest) =
     (fst (pruneDeadLocalStores rest), SRet has v s # snd (pruneDeadLocalStores rest))"
| "pruneDeadLocalStores (SBreak s # rest) =
     (fst (pruneDeadLocalStores rest), SBreak s # snd (pruneDeadLocalStores rest))"
| "pruneDeadLocalStores (SContinue s # rest) =
     (fst (pruneDeadLocalStores rest), SContinue s # snd (pruneDeadLocalStores rest))"

section \<open>Reference semantics of the emitted C\<close>

text \<open>
  What the C text that \<^verbatim>\<open>EmitC::e\<close> and \<^verbatim>\<open>EmitC::stmt\<close> print for an expression or a
  statement computes, for the fragment on \<^verbatim>\<open>i64\<close>, \<^verbatim>\<open>bool\<close> and \<^verbatim>\<open>str\<close> values without
  user calls: \<^verbatim>\<open>(l op r)\<close> with the C operators of \<^verbatim>\<open>bop\<close> (so \<^verbatim>\<open>/\<close> and \<^verbatim>\<open>%\<close> truncate),
  \<^verbatim>\<open>T n = e;\<close>, \<^verbatim>\<open>n = e;\<close>, \<^verbatim>\<open>if (c) {...} else {...}\<close>, \<^verbatim>\<open>while (c) {...}\<close> and the
  printing built-ins.  \<open>None\<close> stands for everything outside the fragment, for undefined
  behaviour of the C code (division by zero) and for running out of fuel.  A \<^verbatim>\<open>for\<close> loop is
  outside the fragment: the emitter prints many of them as closed forms instead of a C loop.
\<close>

datatype Val = VInt int | VBool bool | VStr string

fun binop_int :: "BK \<Rightarrow> int \<Rightarrow> int \<Rightarrow> Val option" where
  "binop_int Add a b = Some (VInt (wrap64 (a + b)))"
| "binop_int Sub a b = Some (VInt (wrap64 (a - b)))"
| "binop_int Mul a b = Some (VInt (wrap64 (a * b)))"
| "binop_int Div a b = (if b = 0 then None else Some (VInt (wrap64 (a sdiv b))))"
| "binop_int Mod a b = (if b = 0 then None else Some (VInt (wrap64 (a smod b))))"
| "binop_int Power a b = None"
| "binop_int Eq a b = Some (VBool (a = b))"
| "binop_int Neq a b = Some (VBool (a \<noteq> b))"
| "binop_int Lt a b = Some (VBool (a < b))"
| "binop_int Lte a b = Some (VBool (a \<le> b))"
| "binop_int Gt a b = Some (VBool (a > b))"
| "binop_int Gte a b = Some (VBool (a \<ge> b))"
| "binop_int And a b = None"
| "binop_int Or a b = None"

fun evalE :: "(string \<times> Val) list \<Rightarrow> Expr \<Rightarrow> Val option" where
  "evalE env (EInt v) = Some (VInt v)"
| "evalE env (EFloat v) = None"
| "evalE env (EBool v) = Some (VBool v)"
| "evalE env (EString v) = Some (VStr v)"
| "evalE env (EVar n) = map_of env n"
| "evalE env (EUnary op x ov) =
     (if ov \<noteq> [] then None
      else case (op, evalE env x) of
        (Neg, Some (VInt a)) \<Rightarrow> Some (VInt (wrap64 (- a)))
      | (LNot, Some (VBool a)) \<Rightarrow> Some (VBool (\<not> a))
      | _ \<Rightarrow> None)"
| "evalE env (EBinary op l r ov) =
     (if ov \<noteq> [] then None
      else case evalE env l of
        Some (VInt a) \<Rightarrow>
          (case evalE env r of Some (VInt b) \<Rightarrow> binop_int op a b | _ \<Rightarrow> None)
      | Some (VBool a) \<Rightarrow>
          (if op = And \<and> \<not> a then Some (VBool False)
           else if op = Or \<and> a then Some (VBool True)
           else case evalE env r of
             Some (VBool b) \<Rightarrow>
               (if op = And \<or> op = Or then Some (VBool b)
                else if op = Eq then Some (VBool (a = b))
                else if op = Neq then Some (VBool (a \<noteq> b))
                else None)
           | _ \<Rightarrow> None)
      | _ \<Rightarrow> None)"
| "evalE env (ECall f a) = None"

record exec_state =
  st_vars :: "(string \<times> Val) list"
  st_out :: string

datatype flow = Normal | Broke | Continued | Returned

text \<open>Assignment to a declared variable: the innermost binding is replaced.\<close>

fun assign_var :: "string \<Rightarrow> Val \<Rightarrow> (string \<times> Val) list \<Rightarrow> (string \<times> Val) list option" where
  "assign_var n v [] = None"
| "assign_var n v ((k, w) # rest) =
     (if k = n then Some ((k, v) # rest) else map_option ((#) (k, w)) (assign_var n v rest))"

text \<open>Leaving a C block ends the lifetime of the variables declared in it.\<close>

definition leave_scope :: "exec_state \<Rightarrow> (flow \<times> exec_state) option \<Rightarrow> (flow \<times> exec_state) option" where
  "leave_scope st0 r =
     map_option (\<lambda>(fl, st). (fl, st\<lparr>st_vars := drop (length (st_vars st) - length (st_vars st0)) (st_vars st)\<rparr>)) r"

text \<open>
  The printing built-ins; the \<^verbatim>\<open>println\<close> forms append a line feed.  The C macros \<^verbatim>\<open>print\<close>
  and \<^verbatim>\<open>println\<close> choose the function by the static C type of their argument
  (\<^verbatim>\<open>_Generic\<close>): an \<^verbatim>\<open>i64\<close> goes to \<^verbatim>\<open>println_i64\<close> and a string to \<^verbatim>\<open>println_str\<close>.  A
  \<^verbatim>\<open>bool\<close> argument of the two macros is outside the fragment, because a comparison is a C
  \<^verbatim>\<open>int\<close> and is printed as a number while a \<^verbatim>\<open>bool\<close> variable is printed as a word.
\<close>

definition print_text :: "string \<Rightarrow> Val \<Rightarrow> string option" where
  "print_text f v =
     (let body =
        (case v of
           VInt i \<Rightarrow> if f \<in> {''print'', ''println'', ''print_i64'', ''println_i64''} then Some (to_string i) else None
         | VBool b \<Rightarrow> if f \<in> {''print_bool'', ''println_bool''}
                      then Some (if b then ''true'' else ''false'') else None
         | VStr s \<Rightarrow> if f \<in> {''print'', ''println'', ''print_str'', ''println_str''} then Some s else None)
      in case body of
           None \<Rightarrow> None
         | Some t \<Rightarrow> Some (if f \<in> {''println'', ''println_i64'', ''println_bool'', ''println_str''}
                             then t @ [CHR 0x0A] else t))"

fun exec_stmt :: "nat \<Rightarrow> Stmt \<Rightarrow> exec_state \<Rightarrow> (flow \<times> exec_state) option"
  and exec_block :: "nat \<Rightarrow> Stmt list \<Rightarrow> exec_state \<Rightarrow> (flow \<times> exec_state) option"
  and exec_while :: "nat \<Rightarrow> Expr \<Rightarrow> Stmt list \<Rightarrow> exec_state \<Rightarrow> (flow \<times> exec_state) option"
  where
  "exec_stmt 0 s st = None"
| "exec_stmt (Suc fuel) s st =
     (case s of
        SLet n decl isConst isOwned fr v sp \<Rightarrow>
          (if decl \<in> {None, Some I64, Some Bool, Some Str} then
             (case evalE (st_vars st) v of
                None \<Rightarrow> None
              | Some x \<Rightarrow> Some (Normal, st\<lparr>st_vars := (n, x) # st_vars st\<rparr>))
           else None)
      | SAssign n v sp \<Rightarrow>
          (case evalE (st_vars st) v of
             None \<Rightarrow> None
           | Some x \<Rightarrow>
               (case assign_var n x (st_vars st) of
                  None \<Rightarrow> None
                | Some vs \<Rightarrow> Some (Normal, st\<lparr>st_vars := vs\<rparr>)))
      | SExpr e sp \<Rightarrow>
          (case e of
             ECall f [a] \<Rightarrow>
               (case evalE (st_vars st) a of
                  None \<Rightarrow> None
                | Some x \<Rightarrow>
                    (case print_text f x of
                       None \<Rightarrow> None
                     | Some t \<Rightarrow> Some (Normal, st\<lparr>st_out := st_out st @ t\<rparr>)))
           | ECall f as \<Rightarrow> None
           | _ \<Rightarrow> (case evalE (st_vars st) e of None \<Rightarrow> None | Some x \<Rightarrow> Some (Normal, st)))
      | SRet has v sp \<Rightarrow>
          (case v of
             None \<Rightarrow> Some (Returned, st)
           | Some e \<Rightarrow> (case evalE (st_vars st) e of None \<Rightarrow> None | Some x \<Rightarrow> Some (Returned, st)))
      | SIf c t e sp \<Rightarrow>
          (case evalE (st_vars st) c of
             Some (VBool b) \<Rightarrow> leave_scope st (exec_block fuel (if b then t else e) st)
           | _ \<Rightarrow> None)
      | SWhile c b sp \<Rightarrow> exec_while fuel c b st
      | SFor n start stop step par b sp \<Rightarrow> None
      | SFormatBlock endArg b sp \<Rightarrow> None
      | SBreak sp \<Rightarrow> Some (Broke, st)
      | SContinue sp \<Rightarrow> Some (Continued, st))"
| "exec_block 0 b st = None"
| "exec_block (Suc fuel) [] st = Some (Normal, st)"
| "exec_block (Suc fuel) (s # rest) st =
     (case exec_stmt fuel s st of
        None \<Rightarrow> None
      | Some (Normal, st') \<Rightarrow> exec_block fuel rest st'
      | Some (fl, st') \<Rightarrow> Some (fl, st'))"
| "exec_while 0 c b st = None"
| "exec_while (Suc fuel) c b st =
     (case evalE (st_vars st) c of
        Some (VBool True) \<Rightarrow>
          (case leave_scope st (exec_block fuel b st) of
             None \<Rightarrow> None
           | Some (Broke, st') \<Rightarrow> Some (Normal, st')
           | Some (Returned, st') \<Rightarrow> Some (Returned, st')
           | Some (fl, st') \<Rightarrow> exec_while fuel c b st')
      | Some (VBool False) \<Rightarrow> Some (Normal, st)
      | _ \<Rightarrow> None)"

section \<open>Type checker: type relations and overload resolution\<close>

text \<open>
  \<^verbatim>\<open>struct Sig\<close> and \<^verbatim>\<open>struct OverloadCandidate\<close> (lines 2717--2726); the fields \<^verbatim>\<open>p\<close>,
  \<^verbatim>\<open>r\<close>, \<^verbatim>\<open>throws\<close> are \<open>sig_p\<close>, \<open>sig_r\<close>, \<open>sig_throws\<close>.
\<close>

record Sig =
  sig_p :: "Type list"
  sig_r :: Type
  sig_throws :: "string list"

record OverloadCandidate =
  symbol :: string
  sig :: Sig

definition isInt :: "Type \<Rightarrow> bool" where
  "isInt t = (t = I32 \<or> t = I64)"

definition isFloat :: "Type \<Rightarrow> bool" where
  "isFloat t = (t = F32 \<or> t = F64)"

definition isNum :: "Type \<Rightarrow> bool" where
  "isNum t = (isInt t \<or> isFloat t)"

fun typeName :: "Type \<Rightarrow> string" where
  "typeName I32 = ''i32''"
| "typeName I64 = ''i64''"
| "typeName F32 = ''f32''"
| "typeName F64 = ''f64''"
| "typeName Bool = ''bool''"
| "typeName Str = ''str''"
| "typeName Void = ''void''"

text \<open>\<^verbatim>\<open>TypeCheck::can\<close>, \<^verbatim>\<open>canSafeWiden\<close> and \<^verbatim>\<open>conversionCost\<close> (lines 2752--2770).\<close>

definition can :: "Type \<Rightarrow> Type \<Rightarrow> bool" where
  "can a b = (if a = b then True else if isNum a \<and> isNum b then True else False)"

definition canSafeWiden :: "Type \<Rightarrow> Type \<Rightarrow> bool" where
  "canSafeWiden from to =
     (if from = to then True
      else if from = I32 \<and> (to = I64 \<or> to = F32 \<or> to = F64) then True
      else if from = I64 \<and> to = F64 then True
      else if from = F32 \<and> to = F64 then True
      else False)"

definition conversionCost :: "Type \<Rightarrow> Type \<Rightarrow> int" where
  "conversionCost from to = (if from = to then 0 else if canSafeWiden from to then 1 else - 1)"

text \<open>
  \<^verbatim>\<open>TypeCheck::warn\<close> appends \<^verbatim>\<open>line L, col C: warning: m\<close> to \<^verbatim>\<open>warnings_\<close>; the list of
  warnings is threaded through the checker's functions.
\<close>

definition warn :: "Span \<Rightarrow> string \<Rightarrow> string list \<Rightarrow> string list" where
  "warn s m warnings =
     warnings @ [''line '' @ to_string (int (fst s)) @ '', col '' @ to_string (int (snd s)) @ '': warning: '' @ m]"

definition INT_MAX :: int where
  "INT_MAX = 2147483647"

text \<open>
  The inner loop of \<^verbatim>\<open>resolveOverload\<close> over the arguments of one candidate of matching
  arity: the summed cost, or nothing as soon as one argument is not convertible.
\<close>

fun costLoop :: "(Type \<times> Type) list \<Rightarrow> int \<Rightarrow> int option" where
  "costLoop [] cost = Some cost"
| "costLoop ((a, p) # rest) cost =
     (let c = conversionCost a p in if c < 0 then None else costLoop rest (cost + c))"

text \<open>The outer loop over the candidates, on the triple \<^verbatim>\<open>(bestCost, best, ambiguous)\<close>.\<close>

fun resolveLoop :: "Type list \<Rightarrow> OverloadCandidate list \<Rightarrow> int \<times> OverloadCandidate option \<times> bool
    \<Rightarrow> int \<times> OverloadCandidate option \<times> bool" where
  "resolveLoop argTypes [] acc = acc"
| "resolveLoop argTypes (cand # cands) (bestCost, best, ambiguous) =
     (if length (sig_p (sig cand)) \<noteq> length argTypes
      then resolveLoop argTypes cands (bestCost, best, ambiguous)
      else case costLoop (zip argTypes (sig_p (sig cand))) 0 of
        None \<Rightarrow> resolveLoop argTypes cands (bestCost, best, ambiguous)
      | Some cost \<Rightarrow>
          if cost < bestCost then resolveLoop argTypes cands (cost, Some cand, False)
          else if cost = bestCost then resolveLoop argTypes cands (bestCost, best, True)
          else resolveLoop argTypes cands (bestCost, best, ambiguous))"

definition ambiguous_warning :: "string \<Rightarrow> string" where
  "ambiguous_warning name =
     ''superuser mode: ambiguous overload for '' @ [CHR 0x27] @ name @ [CHR 0x27] @ ''; keeping first candidate''"

definition ambiguous_error :: "string \<Rightarrow> string" where
  "ambiguous_error name = ''ambiguous overload for function '' @ [CHR 0x27] @ name @ [CHR 0x27]"

text \<open>
  \<^verbatim>\<open>TypeCheck::resolveOverload\<close> (lines 3185--3223), as a function of the checker's mode, its
  overload table and its warnings; it returns the candidate (if any) and the warnings, or throws.
\<close>

definition resolveOverload ::
  "bool \<Rightarrow> (string \<Rightarrow> OverloadCandidate list option) \<Rightarrow> string list \<Rightarrow> string \<Rightarrow> Type list \<Rightarrow> Span
     \<Rightarrow> CompileError + (OverloadCandidate option \<times> string list)" where
  "resolveOverload superuserMode overloads warnings name argTypes s =
     (case overloads name of
        None \<Rightarrow> Inr (None, warnings)
      | Some cands \<Rightarrow>
          (case resolveLoop argTypes cands (INT_MAX, None, False) of
             (bestCost, None, ambiguous) \<Rightarrow> Inr (None, warnings)
           | (bestCost, Some best, ambiguous) \<Rightarrow>
               if ambiguous then
                 (if superuserMode then Inr (Some best, warn s (ambiguous_warning name) warnings)
                  else Inl (CompileError s (ambiguous_error name)))
               else Inr (Some best, warnings)))"

text \<open>\<^verbatim>\<open>canonicalSuperuserCallName\<close> (lines 808--811).\<close>

definition canonicalSuperuserCallName :: "string \<Rightarrow> string" where
  "canonicalSuperuserCallName name =
     (if take 10 name = ''superuser.'' then ''su.'' @ drop 10 name else name)"

text \<open>
  The throws loop and the argument loop at the end of the call case of \<^verbatim>\<open>TypeCheck::expr\<close>:
  in superuser mode a violation is a warning, otherwise it is thrown.
\<close>

fun throwsLoop :: "bool \<Rightarrow> (string \<Rightarrow> bool) \<Rightarrow> Span \<Rightarrow> string \<Rightarrow> string list \<Rightarrow> string list
    \<Rightarrow> CompileError + string list" where
  "throwsLoop su throwsAllowed s f [] warnings = Inr warnings"
| "throwsLoop su throwsAllowed s f (errName # rest) warnings =
     (if \<not> throwsAllowed errName then
        (if su then
           throwsLoop su throwsAllowed s f rest
             (warn s (''superuser mode: bypassing throws contract for '' @ [CHR 0x27] @ f @ [CHR 0x27] @
                      '' and '' @ [CHR 0x27] @ errName @ [CHR 0x27]) warnings)
         else Inl (CompileError s (''call to '' @ [CHR 0x27] @ f @ [CHR 0x27] @ '' may throw '' @
                      [CHR 0x27] @ errName @ [CHR 0x27] @ ''; add '' @ [CHR 0x27] @ ''throws '' @ errName @
                      [CHR 0x27] @ '' to the current function'')))
      else throwsLoop su throwsAllowed s f rest warnings)"

definition failVoid :: "bool \<Rightarrow> Span \<Rightarrow> string \<Rightarrow> string list \<Rightarrow> CompileError + string list" where
  "failVoid su s m warnings =
     (if su then Inr (warn s (''superuser mode: '' @ m @ '' (continuing)'') warnings)
      else Inl (CompileError s m))"

fun argsLoop :: "bool \<Rightarrow> nat \<Rightarrow> (Type \<times> Span) list \<Rightarrow> Type list \<Rightarrow> string list \<Rightarrow> CompileError + string list" where
  "argsLoop su i [] ps warnings = Inr warnings"
| "argsLoop su i ((at, sp) # rest) [] warnings = Inr warnings"
| "argsLoop su i ((at, sp) # rest) (pt # ps) warnings =
     (if \<not> can at pt then
        (case failVoid su sp (''arg '' @ to_string (int (i + 1)) @ '' cannot convert '' @ [CHR 0x27] @
                 typeName at @ [CHR 0x27] @ '' to '' @ [CHR 0x27] @ typeName pt @ [CHR 0x27]) warnings of
           Inl e \<Rightarrow> Inl e
         | Inr w \<Rightarrow> argsLoop su (i + 1) rest ps w)
      else argsLoop su (i + 1) rest ps warnings)"

text \<open>
  The general call case of \<^verbatim>\<open>TypeCheck::expr\<close> (lines 3689--3718), after the types of the
  arguments have been computed: \<open>f\<close> is the call's target \<^verbatim>\<open>n.f\<close>, \<open>args\<close> pairs each argument's
  type with its span, \<open>s\<close> is the call's span.  The result is the rewritten target, the call's
  type and the warnings.
\<close>

definition callGeneral ::
  "bool \<Rightarrow> (string \<Rightarrow> Sig option) \<Rightarrow> (string \<Rightarrow> OverloadCandidate list option) \<Rightarrow> (string \<Rightarrow> bool)
     \<Rightarrow> string list \<Rightarrow> string \<Rightarrow> (Type \<times> Span) list \<Rightarrow> Span
     \<Rightarrow> CompileError + (string \<times> Type \<times> string list)" where
  "callGeneral su sigs overloads throwsAllowed warnings f args s =
     (let fnName = canonicalSuperuserCallName f in
      case resolveOverload su overloads warnings fnName (map fst args) s of
        Inl e \<Rightarrow> Inl e
      | Inr (cand, w1) \<Rightarrow>
          (case (case cand of
                   Some c \<Rightarrow> Some c
                 | None \<Rightarrow> map_option (\<lambda>sg. \<lparr>symbol = fnName, sig = sg\<rparr>) (sigs fnName)) of
             None \<Rightarrow>
               (case failVoid su s (''unknown function '' @ [CHR 0x27] @ f @ [CHR 0x27]) w1 of
                  Inl e \<Rightarrow> Inl e
                | Inr w2 \<Rightarrow> Inr (f, I64, w2))
           | Some c \<Rightarrow>
               (case throwsLoop su throwsAllowed s (symbol c) (sig_throws (sig c)) w1 of
                  Inl e \<Rightarrow> Inl e
                | Inr w2 \<Rightarrow>
                    (case (if length (sig_p (sig c)) \<noteq> length args
                           then failVoid su s (''function '' @ [CHR 0x27] @ symbol c @ [CHR 0x27] @ '' expects '' @
                                  to_string (int (length (sig_p (sig c)))) @ '' args'') w2
                           else Inr w2) of
                       Inl e \<Rightarrow> Inl e
                     | Inr w3 \<Rightarrow>
                         (case argsLoop su 0 args (sig_p (sig c)) w3 of
                            Inl e \<Rightarrow> Inl e
                          | Inr w4 \<Rightarrow> Inr (symbol c, sig_r (sig c), w4))))))"

text \<open>
  Overload resolution as the specification words it.  The cost of one argument is 0 for an
  exact match and 1 for a safe widening, of which there are exactly five; a candidate's cost is
  the sum over its arguments, and it has none when its arity differs or an argument is not
  convertible.
\<close>

definition safe_widenings :: "(Type \<times> Type) list" where
  "safe_widenings = [(I32, I64), (I32, F32), (I32, F64), (I64, F64), (F32, F64)]"

definition arg_cost :: "Type \<Rightarrow> Type \<Rightarrow> int option" where
  "arg_cost a p = (if a = p then Some 0 else if (a, p) \<in> set safe_widenings then Some 1 else None)"

fun total_cost :: "Type list \<Rightarrow> Type list \<Rightarrow> int option" where
  "total_cost [] [] = Some 0"
| "total_cost (a # as) (p # ps) =
     (case arg_cost a p of None \<Rightarrow> None | Some c \<Rightarrow> map_option ((+) c) (total_cost as ps))"
| "total_cost [] (p # ps) = None"
| "total_cost (a # as) [] = None"

text \<open>
  Among the candidates that have a cost, the one of minimum cost wins when it is the only one
  of that cost; a tie at the minimum is an error, and in superuser mode the first of the tied
  candidates is taken with a warning.
\<close>

datatype overload_outcome =
    NoMatch
  | Chosen OverloadCandidate
  | ChosenWithWarning OverloadCandidate
  | Ambiguous

definition choose_overload :: "bool \<Rightarrow> OverloadCandidate list \<Rightarrow> Type list \<Rightarrow> overload_outcome" where
  "choose_overload su cands argTypes =
     (let viable = filter (\<lambda>c. total_cost argTypes (sig_p (sig c)) \<noteq> None) cands in
      if viable = [] then NoMatch
      else
        let m = Min (set (map (\<lambda>c. the (total_cost argTypes (sig_p (sig c)))) viable));
            winners = filter (\<lambda>c. total_cost argTypes (sig_p (sig c)) = Some m) viable
        in if length winners = 1 then Chosen (hd winners)
           else if su then ChosenWithWarning (hd winners)
           else Ambiguous)"

section \<open>Functions and the C emitter's entry point\<close>

text \<open>
  \<^verbatim>\<open>struct Param\<close> and the fields of \<^verbatim>\<open>struct Fn\<close> that the modelled code reads: \<^verbatim>\<open>n\<close>,
  \<^verbatim>\<open>p\<close>, \<^verbatim>\<open>ret\<close>, \<^verbatim>\<open>throws\<close>, \<^verbatim>\<open>b\<close>, \<^verbatim>\<open>ex\<close>, \<^verbatim>\<open>isCliFlag\<close> and \<^verbatim>\<open>s\<close>.
\<close>

record Param =
  param_n :: string
  param_t :: Type

record Fn =
  fn_n :: string
  fn_p :: "Param list"
  fn_ret :: Type
  fn_throws :: "string list"
  fn_b :: "Stmt list"
  fn_ex :: bool
  fn_isCliFlag :: bool
  fn_s :: Span

definition kScriptEntryName :: string where
  "kScriptEntryName = ''__linescript_script_main''"

definition kEntryName :: string where
  "kEntryName = ''__linescript_main''"

text \<open>
  The scan of \<^verbatim>\<open>p_.f\<close> in the constructor of \<^verbatim>\<open>EmitC\<close> (lines 6021--6033) and the choice of
  \<^verbatim>\<open>entry_\<close> and \<^verbatim>\<open>entryError_\<close> after it (lines 6034--6045).
\<close>

record entry_scan =
  mainEntry :: "Fn option"
  scriptEntry :: "Fn option"
  singleZeroArg :: "Fn option"
  zeroArgCount :: int

fun entryScan :: "Fn list \<Rightarrow> entry_scan \<Rightarrow> entry_scan" where
  "entryScan [] sc = sc"
| "entryScan (f # fs) sc =
     (if fn_ex f \<or> fn_isCliFlag f then entryScan fs sc
      else
        let sc1 = (if fn_n f = ''main'' then sc\<lparr>mainEntry := Some f\<rparr> else sc);
            sc2 = (if fn_n f = kScriptEntryName then sc1\<lparr>scriptEntry := Some f\<rparr> else sc1);
            sc3 = (if fn_p f = []
                   then sc2\<lparr>zeroArgCount := zeroArgCount sc2 + 1,
                            singleZeroArg := (if singleZeroArg sc2 = None then Some f else singleZeroArg sc2)\<rparr>
                   else sc2)
        in entryScan fs sc3)"

definition no_entry_message :: string where
  "no_entry_message =
     ''no runnable entry point found; add top-level statements, define main(), or define one zero-argument function''"

definition ambiguous_entry_message :: string where
  "ambiguous_entry_message =
     ''ambiguous entry point: multiple zero-argument functions found; define main(), add top-level statements, or keep only one zero-argument function''"

text \<open>The pair \<^verbatim>\<open>(entry_, entryError_)\<close> that the constructor leaves.\<close>

definition selectEntry :: "Fn list \<Rightarrow> Fn option \<times> string" where
  "selectEntry fs =
     (let sc = entryScan fs \<lparr>mainEntry = None, scriptEntry = None, singleZeroArg = None, zeroArgCount = 0\<rparr> in
      if scriptEntry sc \<noteq> None then (scriptEntry sc, [])
      else if mainEntry sc \<noteq> None then (mainEntry sc, [])
      else if zeroArgCount sc = 1 then (singleZeroArg sc, [])
      else if zeroArgCount sc = 0 then (None, no_entry_message)
      else (None, ambiguous_entry_message))"

text \<open>
  The driver (lines 12455--12457): when building or running, a missing entry is thrown as a
  runtime error with the emitter's message.
\<close>

definition requireEntry :: "bool \<Rightarrow> bool \<Rightarrow> Fn list \<Rightarrow> string + Fn option" where
  "requireEntry build run fs =
     (if (build \<or> run) \<and> fst (selectEntry fs) = None then Inl (snd (selectEntry fs))
      else Inr (fst (selectEntry fs)))"

text \<open>
  \<^verbatim>\<open>EmitC::emitEntryWrapper\<close> (lines 10788--10822): the lines of C it prints, for the entry
  function, the \<^verbatim>\<open>ultraMinimalRuntime_\<close> flag and the active flag functions.
\<close>

definition emitEntryWrapper :: "bool \<Rightarrow> string list \<Rightarrow> Fn \<Rightarrow> CompileError + string list" where
  "emitEntryWrapper ultraMinimalRuntime activeCliFlagCalls entry =
     (if fn_p entry \<noteq> [] then Inl (CompileError (fn_s entry) ''entry function must have zero parameters'')
      else if ultraMinimalRuntime then
        Inr ([''void __stdcall mainCRTStartup(void) {''] @
             map (\<lambda>flagFn. ''  '' @ flagFn @ ''();'') activeCliFlagCalls @
             (if fn_ret entry = Void then [''  '' @ kEntryName @ ''();'', ''  ExitProcess(0u);'']
              else if fn_ret entry = Str then [''  (void)'' @ kEntryName @ ''();'', ''  ExitProcess(0u);'']
              else [''  const int rc = (int)'' @ kEntryName @ ''();'', ''  ExitProcess((unsigned int)rc);'']) @
             [''}''])
      else
        Inr ([''int main(void) {''] @
             map (\<lambda>flagFn. ''  '' @ flagFn @ ''();'') activeCliFlagCalls @
             (if fn_ret entry = Void then [''  '' @ kEntryName @ ''();'', ''  return 0;'']
              else if fn_ret entry = Str then [''  (void)'' @ kEntryName @ ''();'', ''  return 0;'']
              else [''  return (int)'' @ kEntryName @ ''();'']) @
             [''}'']))"

text \<open>
  The functions the entry scan looks at: those that are neither \<^verbatim>\<open>extern\<close> nor flag functions
  (the \<^verbatim>\<open>continue\<close> at the head of the scan loop).  \<open>mkFn\<close> builds a function record with an
  empty body, for stating examples.
\<close>

definition entry_candidates :: "Fn list \<Rightarrow> Fn list" where
  "entry_candidates fs = filter (\<lambda>f. \<not> fn_ex f \<and> \<not> fn_isCliFlag f) fs"

definition mkFn :: "string \<Rightarrow> Param list \<Rightarrow> Type \<Rightarrow> bool \<Rightarrow> bool \<Rightarrow> Fn" where
  "mkFn name params ret ex flag =
     \<lparr>fn_n = name, fn_p = params, fn_ret = ret, fn_throws = [], fn_b = [],
      fn_ex = ex, fn_isCliFlag = flag, fn_s = (1, 1)\<rparr>"

section \<open>Typed-IR bundle hashes\<close>

text \<open>
  \<^verbatim>\<open>fnv1a64\<close> (lines 10843--10850) on \<^verbatim>\<open>uint64_t\<close>, \<^verbatim>\<open>hex64\<close> (sixteen lower-case hexadecimal
  digits), \<^verbatim>\<open>computeSourceStateHash\<close> and \<^verbatim>\<open>computeBuildConfigHash\<close> (lines 10935--10958).
  An input file is the pair of its path and its contents; a file that cannot be read is outside
  the model.
\<close>

definition fnv1a64 :: "string \<Rightarrow> 64 word \<Rightarrow> 64 word" where
  "fnv1a64 s seed = foldl (\<lambda>h c. (h XOR of_char c) * 1099511628211) seed s"

definition fnv_offset :: "64 word" where
  "fnv_offset = 1469598103934665603"

definition hex_digit :: "nat \<Rightarrow> char" where
  "hex_digit n = ''0123456789abcdef'' ! n"

definition hex64 :: "64 word \<Rightarrow> string" where
  "hex64 v = map (\<lambda>i. hex_digit (unat (drop_bit (4 * i) v AND 15))) (rev [0..<16])"

fun sourceStateLoop :: "(string \<times> string) list \<Rightarrow> 64 word \<Rightarrow> 64 word" where
  "sourceStateLoop [] h = h"
| "sourceStateLoop ((path, contents) # rest) h = sourceStateLoop rest (fnv1a64 contents (fnv1a64 path h))"

definition computeSourceStateHash :: "(string \<times> string) list \<Rightarrow> string" where
  "computeSourceStateHash inputs = hex64 (sourceStateLoop inputs fnv_offset)"

definition computeBuildConfigHash ::
  "(string \<times> string) list \<Rightarrow> string \<Rightarrow> string \<Rightarrow> bool \<Rightarrow> int \<Rightarrow> string \<Rightarrow> string \<Rightarrow> string \<Rightarrow> string" where
  "computeBuildConfigHash inputs cc backend maxSpeed passes target sysroot linker =
     (let h0 = fnv_offset;
          h1 = fnv1a64 ''LineScript-compile-cache-v1'' h0;
          h2 = fnv1a64 (computeSourceStateHash inputs) h1;
          h3 = fnv1a64 cc h2;
          h4 = fnv1a64 backend h3;
          h5 = fnv1a64 (if maxSpeed then ''1'' else ''0'') h4;
          h6 = fnv1a64 (to_string passes) h5;
          h7 = fnv1a64 target h6;
          h8 = fnv1a64 sysroot h7;
          h9 = fnv1a64 linker h8
      in hex64 h9)"

text \<open>
  The \<^verbatim>\<open>config_hash\<close> that \<^verbatim>\<open>main\<close> hands to \<^verbatim>\<open>writeTypedIrBundle\<close> is its variable
  \<^verbatim>\<open>incrementalConfigHash\<close> (lines 12237--12242, 12483--12488): the build-configuration hash when
  the cache is in use (\<^verbatim>\<open>o.incremental && !o.noCache && !o.inputs.empty()\<close>), and the empty
  string otherwise.
\<close>

definition incrementalConfigHash ::
  "bool \<Rightarrow> bool \<Rightarrow> (string \<times> string) list \<Rightarrow> string \<Rightarrow> string \<Rightarrow> bool \<Rightarrow> int \<Rightarrow> string \<Rightarrow> string \<Rightarrow> string
     \<Rightarrow> string" where
  "incrementalConfigHash incremental noCache inputs cc backend maxSpeed passes target sysroot linker =
     (if incremental \<and> \<not> noCache \<and> inputs \<noteq> []
      then computeBuildConfigHash inputs cc backend maxSpeed passes target sysroot linker
      else [])"

section \<open>Type checker: statements, blocks and functions\<close>

text \<open>
  \<^verbatim>\<open>struct Local\<close> of \<^verbatim>\<open>TypeCheck\<close> and the table of locals
  (\<^verbatim>\<open>std::unordered_map<std::string, Local>\<close>), a finite map from names.
\<close>

record Local =
  local_t :: Type
  local_isConst :: bool
  local_isOwned :: bool
  local_ownedFreeFn :: string

type_synonym locals = "string \<Rightarrow> Local option"

text \<open>
  \<^verbatim>\<open>TypeCheck::expr\<close> reads the locals, annotates and rewrites the expression, may add warnings,
  and returns the expression's type or throws.  The statement checker below takes it as a
  parameter: what it proves about statements holds for every expression checker.
\<close>

type_synonym expr_checker = "locals \<Rightarrow> Expr \<Rightarrow> string list \<Rightarrow> CompileError + (Expr \<times> Type \<times> string list)"

text \<open>
  \<^verbatim>\<open>TypeCheck::req\<close> (lines 2858--2865): a failed requirement is thrown, but in superuser mode
  it is recorded as a warning and checking goes on.
\<close>

definition req :: "bool \<Rightarrow> bool \<Rightarrow> Span \<Rightarrow> string \<Rightarrow> string list \<Rightarrow> CompileError + string list" where
  "req su ok s m warnings =
     (if ok then Inr warnings
      else if su then Inr (warn s (''superuser mode: '' @ m @ '' (continuing)'') warnings)
      else Inl (CompileError s m))"

definition quoted :: "string \<Rightarrow> string" where
  "quoted x = [CHR 0x27] @ x @ [CHR 0x27]"

text \<open>\<^verbatim>\<open>TypeCheck::ownedFreeFnForCtor\<close> (lines 3248--3264).\<close>

definition ownedFreeFnForCtor :: "Expr \<Rightarrow> string" where
  "ownedFreeFnForCtor initExpr =
     (case initExpr of
        ECall f a \<Rightarrow>
          (if f = ''array_new'' then ''array_free''
           else if f = ''dict_new'' then ''dict_free''
           else if f = ''map_new'' then ''map_free''
           else if f = ''object_new'' then ''object_free''
           else if f = ''np_new'' \<or> f = ''np_copy'' \<or> f = ''np_from_range'' \<or> f = ''np_linspace'' then ''np_free''
           else if f = ''gfx_new'' \<or> f = ''pg_surface_new'' then ''gfx_free''
           else if f = ''game_new'' \<or> f = ''pg_init'' then ''game_free''
           else if f = ''phys_new'' then ''phys_free''
           else if f = ''http_server_listen'' then ''http_server_close''
           else if f = ''http_client_connect'' then ''http_client_close''
           else if f = ''result_ok'' \<or> f = ''result_err'' then ''result_free''
           else if f = ''option_some'' \<or> f = ''option_none'' then ''option_free''
           else [])
      | _ \<Rightarrow> [])"

text \<open>
  The parser's table, \<^verbatim>\<open>Parser::constructorFreeFnFromExpr\<close> (lines 1483--1502), which records the
  free function that \<^verbatim>\<open>delete\<close> uses; \<open>classes\<close> says which names are declared classes.
\<close>

definition constructorFreeFnFromExpr :: "(string \<Rightarrow> bool) \<Rightarrow> Expr \<Rightarrow> string" where
  "constructorFreeFnFromExpr classes e =
     (case e of
        ECall f a \<Rightarrow>
          (if classes f then ''object_free''
           else if f = ''array_new'' then ''array_free''
           else if f = ''dict_new'' then ''dict_free''
           else if f = ''map_new'' then ''map_free''
           else if f = ''object_new'' then ''object_free''
           else if f = ''option_some'' \<or> f = ''option_none'' then ''option_free''
           else if f = ''result_ok'' \<or> f = ''result_err'' then ''result_free''
           else if f = ''np_new'' then ''np_free''
           else if f = ''gfx_new'' then ''gfx_free''
           else if f = ''game_new'' then ''game_free''
           else if f = ''pg_surface_new'' then ''pg_surface_free''
           else if f = ''phys_new'' then ''phys_free''
           else if f = ''http_server_listen'' then ''http_server_close''
           else if f = ''http_client_connect'' then ''http_client_close''
           else [])
      | _ \<Rightarrow> [])"

text \<open>\<^verbatim>\<open>hasLoopControl\<close> and \<^verbatim>\<open>hasForbiddenAssign\<close> (lines 2791--2856).\<close>

fun hasLoopControl :: "Stmt list \<Rightarrow> bool" where
  "hasLoopControl [] = False"
| "hasLoopControl (SBreak s # rest) = True"
| "hasLoopControl (SContinue s # rest) = True"
| "hasLoopControl (SIf c t e s # rest) = (hasLoopControl t \<or> hasLoopControl e \<or> hasLoopControl rest)"
| "hasLoopControl (SWhile c b s # rest) = (hasLoopControl b \<or> hasLoopControl rest)"
| "hasLoopControl (SFor n start stop step par b s # rest) = (hasLoopControl b \<or> hasLoopControl rest)"
| "hasLoopControl (SFormatBlock endArg b s # rest) = (hasLoopControl b \<or> hasLoopControl rest)"
| "hasLoopControl (SLet n decl isConst isOwned fr v s # rest) = hasLoopControl rest"
| "hasLoopControl (SAssign n v s # rest) = hasLoopControl rest"
| "hasLoopControl (SExpr e s # rest) = hasLoopControl rest"
| "hasLoopControl (SRet has v s # rest) = hasLoopControl rest"

fun hasForbiddenAssign :: "Stmt list \<Rightarrow> (string \<Rightarrow> bool) \<Rightarrow> bool" where
  "hasForbiddenAssign [] forbidden = False"
| "hasForbiddenAssign (SAssign n v s # rest) forbidden = (forbidden n \<or> hasForbiddenAssign rest forbidden)"
| "hasForbiddenAssign (SIf c t e s # rest) forbidden =
     (hasForbiddenAssign t forbidden \<or> hasForbiddenAssign e forbidden \<or> hasForbiddenAssign rest forbidden)"
| "hasForbiddenAssign (SWhile c b s # rest) forbidden =
     (hasForbiddenAssign b forbidden \<or> hasForbiddenAssign rest forbidden)"
| "hasForbiddenAssign (SFor n start stop step par b s # rest) forbidden =
     (hasForbiddenAssign b forbidden \<or> hasForbiddenAssign rest forbidden)"
| "hasForbiddenAssign (SFormatBlock endArg b s # rest) forbidden =
     (hasForbiddenAssign b forbidden \<or> hasForbiddenAssign rest forbidden)"
| "hasForbiddenAssign (SLet n decl isConst isOwned fr v s # rest) forbidden = hasForbiddenAssign rest forbidden"
| "hasForbiddenAssign (SExpr e s # rest) forbidden = hasForbiddenAssign rest forbidden"
| "hasForbiddenAssign (SRet has v s # rest) forbidden = hasForbiddenAssign rest forbidden"
| "hasForbiddenAssign (SBreak s # rest) forbidden = hasForbiddenAssign rest forbidden"
| "hasForbiddenAssign (SContinue s # rest) forbidden = hasForbiddenAssign rest forbidden"

text \<open>
  The sequence of requirements of a statement: each one is checked with the warnings the
  previous one left, and the first one thrown ends the statement.
\<close>

definition andThen :: "CompileError + 'a \<Rightarrow> ('a \<Rightarrow> CompileError + 'b) \<Rightarrow> CompileError + 'b" where
  "andThen r k = (case r of Inl e \<Rightarrow> Inl e | Inr x \<Rightarrow> k x)"

text \<open>
  \<^verbatim>\<open>TypeCheck::stmt\<close> and \<^verbatim>\<open>TypeCheck::block\<close> (lines 3243--3396).  \<^verbatim>\<open>stmt\<close> receives the table
  of locals by reference and so returns it; \<^verbatim>\<open>block\<close> receives it by value, so what its
  statements add to it is lost when it returns.  Both return the statements as annotated
  (\<^verbatim>\<open>ownedFreeFn\<close>, rewritten call targets) and the warnings.  In \<^verbatim>\<open>SK::Assign\<close> the C++
  \<^verbatim>\<open>l[n.n]\<close> inserts a default \<^verbatim>\<open>Local\<close> for a name that is missing, which can only be
  reached in superuser mode.
\<close>

fun stmt :: "expr_checker \<Rightarrow> bool \<Rightarrow> Stmt \<Rightarrow> locals \<Rightarrow> Type \<Rightarrow> nat \<Rightarrow> string list
               \<Rightarrow> CompileError + (Stmt \<times> locals \<times> string list)"
  and block :: "expr_checker \<Rightarrow> bool \<Rightarrow> Stmt list \<Rightarrow> locals \<Rightarrow> Type \<Rightarrow> nat \<Rightarrow> string list
               \<Rightarrow> CompileError + (Stmt list \<times> string list)" where
  "stmt ex su (SLet n decl isConst isOwned fr v s) l ret loopDepth w =
     andThen (req su (l n = None) s (''variable '' @ quoted n @ '' already declared'') w) (\<lambda>w1.
     andThen (ex l v w1) (\<lambda>(v', vt, w2).
       let ft = (case decl of Some d \<Rightarrow> d | None \<Rightarrow> vt) in
       andThen (req su (can vt ft) s
                  (''cannot convert '' @ quoted (typeName vt) @ '' to '' @ quoted (typeName ft)) w2) (\<lambda>w3.
       andThen (if isOwned then
                  andThen (req su (loopDepth = 0) s ''declare owned is not allowed inside loops'' w3) (\<lambda>w4.
                  andThen (req su (ft = I64) s ''declare owned requires i64 handle type'' w4) (\<lambda>w5.
                  andThen (req su (ownedFreeFnForCtor v' \<noteq> []) s
                             ''declare owned requires constructor call that has a matching free function'' w5) (\<lambda>w6.
                  Inr (ownedFreeFnForCtor v', w6))))
                else Inr (fr, w3)) (\<lambda>(fr', w7).
       Inr (SLet n decl isConst isOwned fr' v' s,
            l(n \<mapsto> \<lparr>local_t = ft, local_isConst = isConst, local_isOwned = isOwned, local_ownedFreeFn = fr'\<rparr>),
            w7)))))"
| "stmt ex su (SAssign n v s) l ret loopDepth w =
     andThen (req su (l n \<noteq> None) s (''assignment to undeclared variable '' @ quoted n) w) (\<lambda>w1.
     andThen (ex l v w1) (\<lambda>(v', vt, w2).
       let lo = (case l n of
                   Some x \<Rightarrow> x
                 | None \<Rightarrow> \<lparr>local_t = I64, local_isConst = False, local_isOwned = False, local_ownedFreeFn = []\<rparr>);
           l' = l(n \<mapsto> lo) in
       andThen (req su (\<not> local_isConst lo) s (''cannot assign to const variable '' @ quoted n) w2) (\<lambda>w3.
       andThen (req su (\<not> local_isOwned lo) s
                  (''cannot assign to owned handle '' @ quoted n @
                   ''; release explicitly and declare a new owned handle'') w3) (\<lambda>w4.
       andThen (req su (can vt (local_t lo)) s
                  (''cannot assign '' @ quoted (typeName vt) @ '' to '' @ quoted (typeName (local_t lo))) w4) (\<lambda>w5.
       Inr (SAssign n v' s, l', w5))))))"
| "stmt ex su (SExpr e s) l ret loopDepth w =
     andThen (ex l e w) (\<lambda>(e', t, w1). Inr (SExpr e' s, l, w1))"
| "stmt ex su (SRet has v s) l ret loopDepth w =
     (if \<not> has then
        andThen (req su (ret = Void) s ''missing return value'' w) (\<lambda>w1. Inr (SRet has v s, l, w1))
      else case v of
        None \<Rightarrow> Inr (SRet has v s, l, w)
      | Some e \<Rightarrow>
          andThen (case e of
                     EVar rv \<Rightarrow>
                       (case l rv of
                          Some lo \<Rightarrow>
                            if local_isOwned lo
                            then req su False s (''cannot return owned handle variable '' @ quoted rv) w
                            else Inr w
                        | None \<Rightarrow> Inr w)
                   | _ \<Rightarrow> Inr w) (\<lambda>w1.
          andThen (ex l e w1) (\<lambda>(e', vt, w2).
          andThen (req su (can vt ret) s
                     (''cannot return '' @ quoted (typeName vt) @ '' from '' @ quoted (typeName ret)) w2) (\<lambda>w3.
          Inr (SRet has (Some e') s, l, w3)))))"
| "stmt ex su (SIf c t e s) l ret loopDepth w =
     andThen (ex l c w) (\<lambda>(c', ct, w1).
     andThen (req su (ct = Bool) s ''if condition must be bool'' w1) (\<lambda>w2.
     andThen (block ex su t l ret loopDepth w2) (\<lambda>(t', w3).
     andThen (block ex su e l ret loopDepth w3) (\<lambda>(e', w4).
     Inr (SIf c' t' e' s, l, w4)))))"
| "stmt ex su (SWhile c b s) l ret loopDepth w =
     andThen (ex l c w) (\<lambda>(c', ct, w1).
     andThen (req su (ct = Bool) s ''while condition must be bool'' w1) (\<lambda>w2.
     andThen (block ex su b l ret (loopDepth + 1) w2) (\<lambda>(b', w3).
     Inr (SWhile c' b' s, l, w3))))"
| "stmt ex su (SFor n start stop step par b s) l ret loopDepth w =
     andThen (ex l start w) (\<lambda>(start', st, w1).
     andThen (ex l stop w1) (\<lambda>(stop', en, w2).
     andThen (ex l step w2) (\<lambda>(step', sp, w3).
     andThen (req su (st = I64) s ''for range start must be i64'' w3) (\<lambda>w4.
     andThen (req su (en = I64) s ''for range stop must be i64'' w4) (\<lambda>w5.
     andThen (req su (sp = I64) s ''for range step must be i64'' w5) (\<lambda>w6.
     andThen (if step' = EInt 0 then
                (if su then Inr (warn s ''superuser mode: allowing for-range literal step 0 (loop becomes no-op)'' w6)
                 else Inl (CompileError s ''for range step cannot be zero''))
              else Inr w6) (\<lambda>w7.
     andThen (if par \<and> hasLoopControl b then
                (if su then Inr (warn s ''superuser mode: allowing break/continue inside parallel for'' w7)
                 else Inl (CompileError s ''parallel for does not support break/continue''))
              else Inr w7) (\<lambda>w8.
     andThen (if par \<and> hasForbiddenAssign b (\<lambda>x. l x \<noteq> None \<or> x = n) then
                (if su then Inr (warn s ''superuser mode: allowing outer-variable writes in parallel for'' w8)
                 else Inl (CompileError s ''parallel for cannot assign to outer variables''))
              else Inr w8) (\<lambda>w9.
     andThen (block ex su b
                (l(n \<mapsto> \<lparr>local_t = I64, local_isConst = False, local_isOwned = False, local_ownedFreeFn = []\<rparr>))
                ret (loopDepth + 1) w9) (\<lambda>(b', w10).
     Inr (SFor n start' stop' step' par b' s, l, w10)))))))))))"
| "stmt ex su (SFormatBlock endArg b s) l ret loopDepth w =
     andThen (case endArg of
                None \<Rightarrow> Inr (None, w)
              | Some e \<Rightarrow>
                  andThen (ex l e w) (\<lambda>(e', et, w1).
                  andThen (req su (et = Str) s ''formatOutput block end argument must be str'' w1) (\<lambda>w2.
                  Inr (Some e', w2)))) (\<lambda>(endArg', w3).
     andThen (block ex su b l ret loopDepth w3) (\<lambda>(b', w4).
     Inr (SFormatBlock endArg' b' s, l, w4)))"
| "stmt ex su (SBreak s) l ret loopDepth w =
     andThen (req su (loopDepth > 0) s ([CHR 0x27] @ ''break'' @ [CHR 0x27] @ '' can only be used inside loops'') w) (\<lambda>w1. Inr (SBreak s, l, w1))"
| "stmt ex su (SContinue s) l ret loopDepth w =
     andThen (req su (loopDepth > 0) s ([CHR 0x27] @ ''continue'' @ [CHR 0x27] @ '' can only be used inside loops'') w) (\<lambda>w1. Inr (SContinue s, l, w1))"
| "block ex su [] l ret loopDepth w = Inr ([], w)"
| "block ex su (x # xs) l ret loopDepth w =
     andThen (stmt ex su x l ret loopDepth w) (\<lambda>(x', l', w1).
     andThen (block ex su xs l' ret loopDepth w1) (\<lambda>(xs', w2).
     Inr (x' # xs', w2)))"

text \<open>
  \<^verbatim>\<open>TypeCheck::fn\<close> (lines 3225--3241): the parameters become the first locals, then the body is
  checked as a block at loop depth 0.
\<close>

fun paramsLoop :: "bool \<Rightarrow> Span \<Rightarrow> Param list \<Rightarrow> locals \<Rightarrow> string list \<Rightarrow> CompileError + (locals \<times> string list)" where
  "paramsLoop su s [] l w = Inr (l, w)"
| "paramsLoop su s (p # ps) l w =
     andThen (if l (param_n p) \<noteq> None then
                (if su then Inr (warn s (''superuser mode: duplicate parameter '' @ quoted (param_n p) @
                                         '' (latest declaration wins)'') w)
                 else Inl (CompileError s (''duplicate parameter '' @ quoted (param_n p))))
              else Inr w) (\<lambda>w1.
     paramsLoop su s ps
       (l(param_n p \<mapsto> \<lparr>local_t = param_t p, local_isConst = False, local_isOwned = False, local_ownedFreeFn = []\<rparr>))
       w1)"

definition fn :: "expr_checker \<Rightarrow> bool \<Rightarrow> Fn \<Rightarrow> string list \<Rightarrow> CompileError + (Stmt list \<times> string list)" where
  "fn ex su f w =
     andThen (paramsLoop su (fn_s f) (fn_p f) Map.empty w) (\<lambda>(l, w1).
     block ex su (fn_b f) l (fn_ret f) 0 w1)"

text \<open>
  The cases of \<^verbatim>\<open>TypeCheck::expr\<close> for literals, variables and calls of functions that are not
  special-cased built-ins (lines 3413--3421 and 3689--3718), as an expression checker for
  concrete programs.  Expressions carry no span in the model, so the diagnostics of this
  fragment use the span \<open>es\<close> given by the caller.  Operators, the special-cased built-ins and
  the raw-memory functions are outside the fragment.
\<close>

definition outside_fragment :: "string \<Rightarrow> bool" where
  "outside_fragment fnName =
     (fnName \<in> {''superuser'', ''input'', ''input_i64'', ''input_f64'', ''print'', ''println'', ''formatOutput'',
                 ''FormatOutput'', ''max'', ''min'', ''abs'', ''clamp'', ''.format'', ''spawn'',
                 ''mem_alloc'', ''mem_realloc'', ''mem_free'', ''mem_set'', ''mem_copy'', ''mem_read_i64'',
                 ''mem_write_i64'', ''mem_read_f64'', ''mem_write_f64''}
      \<or> take 3 fnName = ''su.'')"

fun exprFragment :: "bool \<Rightarrow> (string \<Rightarrow> Sig option) \<Rightarrow> (string \<Rightarrow> OverloadCandidate list option) \<Rightarrow> (string \<Rightarrow> bool)
      \<Rightarrow> Span \<Rightarrow> locals \<Rightarrow> Expr \<Rightarrow> string list \<Rightarrow> CompileError + (Expr \<times> Type \<times> string list)"
  and exprsFragment :: "bool \<Rightarrow> (string \<Rightarrow> Sig option) \<Rightarrow> (string \<Rightarrow> OverloadCandidate list option) \<Rightarrow> (string \<Rightarrow> bool)
      \<Rightarrow> Span \<Rightarrow> locals \<Rightarrow> Expr list \<Rightarrow> string list \<Rightarrow> CompileError + (Expr list \<times> Type list \<times> string list)"
  where
  "exprFragment su sigs overloads throwsAllowed es l (EInt v) w = Inr (EInt v, I64, w)"
| "exprFragment su sigs overloads throwsAllowed es l (EFloat v) w = Inr (EFloat v, F64, w)"
| "exprFragment su sigs overloads throwsAllowed es l (EBool v) w = Inr (EBool v, Bool, w)"
| "exprFragment su sigs overloads throwsAllowed es l (EString v) w = Inr (EString v, Str, w)"
| "exprFragment su sigs overloads throwsAllowed es l (EVar n) w =
     (case l n of
        Some lo \<Rightarrow> Inr (EVar n, local_t lo, w)
      | None \<Rightarrow> andThen (failVoid su es (''unknown variable '' @ quoted n) w) (\<lambda>w1. Inr (EVar n, I64, w1)))"
| "exprFragment su sigs overloads throwsAllowed es l (EUnary op x ov) w =
     Inl (CompileError es ''outside the modelled fragment'')"
| "exprFragment su sigs overloads throwsAllowed es l (EBinary op a b ov) w =
     Inl (CompileError es ''outside the modelled fragment'')"
| "exprFragment su sigs overloads throwsAllowed es l (ECall f a) w =
     (if outside_fragment (canonicalSuperuserCallName f)
      then Inl (CompileError es ''outside the modelled fragment'')
      else
        andThen (exprsFragment su sigs overloads throwsAllowed es l a w) (\<lambda>(a', argTypes, w1).
        andThen (callGeneral su sigs overloads throwsAllowed w1 f (map (\<lambda>t. (t, es)) argTypes) es) (\<lambda>(f', t, w2).
        Inr (ECall f' a', t, w2))))"
| "exprsFragment su sigs overloads throwsAllowed es l [] w = Inr ([], [], w)"
| "exprsFragment su sigs overloads throwsAllowed es l (x # xs) w =
     andThen (exprFragment su sigs overloads throwsAllowed es l x w) (\<lambda>(x', t, w1).
     andThen (exprsFragment su sigs overloads throwsAllowed es l xs w1) (\<lambda>(xs', ts, w2).
     Inr (x' # xs', t # ts, w2)))"

text \<open>
  A block redeclares a visible name: somewhere in it, also inside nested blocks, stands a
  \<^verbatim>\<open>declare\<close> of a name that is in scope there.  In scope are the names in \<open>scope\<close> (the
  parameters and what the enclosing blocks declared before), the names declared earlier in the
  same block, and the variable of an enclosing \<^verbatim>\<open>for\<close>.
\<close>

fun redeclares :: "(string \<Rightarrow> bool) \<Rightarrow> Stmt list \<Rightarrow> bool" where
  "redeclares scope [] = False"
| "redeclares scope (SLet n decl isConst isOwned fr v s # rest) = (scope n \<or> redeclares (scope(n := True)) rest)"
| "redeclares scope (SIf c t e s # rest) = (redeclares scope t \<or> redeclares scope e \<or> redeclares scope rest)"
| "redeclares scope (SWhile c b s # rest) = (redeclares scope b \<or> redeclares scope rest)"
| "redeclares scope (SFor n start stop step par b s # rest) =
     (redeclares (scope(n := True)) b \<or> redeclares scope rest)"
| "redeclares scope (SFormatBlock endArg b s # rest) = (redeclares scope b \<or> redeclares scope rest)"
| "redeclares scope (SAssign n v s # rest) = redeclares scope rest"
| "redeclares scope (SExpr e s # rest) = redeclares scope rest"
| "redeclares scope (SRet has v s # rest) = redeclares scope rest"
| "redeclares scope (SBreak s # rest) = redeclares scope rest"
| "redeclares scope (SContinue s # rest) = redeclares scope rest"

text \<open>
  Example programs: the function \<^verbatim>\<open>fn f(a: i64) -> i64\<close> whose body declares \<^verbatim>\<open>a\<close> again inside
  an \<^verbatim>\<open>if\<close>, the signature table of a program with the class \<^verbatim>\<open>P\<close> of scenario E (the parser
  turns its constructor into the function \<^verbatim>\<open>P(v: i64) -> i64\<close>, lines 1773--1798) and the built-in
  \<^verbatim>\<open>object_new\<close> (line 2983), and the expression checker of a program without functions.
\<close>

definition fn_example :: Fn where
  "fn_example = \<lparr>fn_n = ''f'', fn_p = [\<lparr>param_n = ''a'', param_t = I64\<rparr>], fn_ret = I64, fn_throws = [],
     fn_b = [SIf (EBool True) [SLet ''a'' None False False [] (EInt 1) (2, 5)] [] (1, 1),
             SRet True (Some (EVar ''a'')) (3, 1)],
     fn_ex = False, fn_isCliFlag = False, fn_s = (0, 0)\<rparr>"

definition sigs_scenario_E :: "string \<Rightarrow> Sig option" where
  "sigs_scenario_E =
     [''P'' \<mapsto> \<lparr>sig_p = [I64], sig_r = I64, sig_throws = []\<rparr>,
      ''object_new'' \<mapsto> \<lparr>sig_p = [], sig_r = I64, sig_throws = []\<rparr>]"

definition exprLiterals :: "bool \<Rightarrow> expr_checker" where
  "exprLiterals su = exprFragment su (\<lambda>n. None) (\<lambda>n. None) (\<lambda>e. False) (0, 0)"

section \<open>Optimizer: closed forms of reduction loops\<close>

text \<open>
  \<^verbatim>\<open>evalConstI64Expr\<close> and \<^verbatim>\<open>affineI64ConstExpr\<close> (lines 4547--4640); \<open>negOv\<close> is the global
  \<^verbatim>\<open>gOptHasUnaryNegOverride\<close>.  An affine expression \<^verbatim>\<open>a * loopVar + b\<close> is the pair \<open>(a, b)\<close>.
\<close>

fun evalConstI64Expr :: "bool \<Rightarrow> Expr \<Rightarrow> int option" where
  "evalConstI64Expr negOv (EInt v) = Some v"
| "evalConstI64Expr negOv (EUnary op x ov) =
     (if ov \<noteq> [] then None
      else if op = Neg \<and> negOv then None
      else if op \<noteq> Neg then None
      else case evalConstI64Expr negOv x of
        None \<Rightarrow> None
      | Some v \<Rightarrow> checkedI128ToI64 (- v))"
| "evalConstI64Expr negOv (EBinary op l r ov) =
     (if ov \<noteq> [] then None
      else case (evalConstI64Expr negOv l, evalConstI64Expr negOv r) of
        (Some a, Some b) \<Rightarrow>
          (if op = Add then checkedI128ToI64 (a + b)
           else if op = Sub then checkedI128ToI64 (a - b)
           else if op = Mul then checkedI128ToI64 (a * b)
           else None)
      | _ \<Rightarrow> None)"
| "evalConstI64Expr negOv (EFloat v) = None"
| "evalConstI64Expr negOv (EBool v) = None"
| "evalConstI64Expr negOv (EString v) = None"
| "evalConstI64Expr negOv (EVar n) = None"
| "evalConstI64Expr negOv (ECall f a) = None"

definition checkedPair :: "int \<Rightarrow> int \<Rightarrow> (int \<times> int) option" where
  "checkedPair a b =
     (case (checkedI128ToI64 a, checkedI128ToI64 b) of
        (Some a', Some b') \<Rightarrow> Some (a', b')
      | _ \<Rightarrow> None)"

fun affineI64ConstExpr :: "bool \<Rightarrow> Expr \<Rightarrow> string \<Rightarrow> (int \<times> int) option" where
  "affineI64ConstExpr negOv (EInt v) loopVar = Some (0, v)"
| "affineI64ConstExpr negOv (EVar n) loopVar = (if n = loopVar then Some (1, 0) else None)"
| "affineI64ConstExpr negOv (EUnary op x ov) loopVar =
     (if ov \<noteq> [] then None
      else if op = Neg \<and> negOv then None
      else if op \<noteq> Neg then None
      else case affineI64ConstExpr negOv x loopVar of
        None \<Rightarrow> None
      | Some (a, b) \<Rightarrow> checkedPair (- a) (- b))"
| "affineI64ConstExpr negOv (EBinary op l r ov) loopVar =
     (if ov \<noteq> [] then None
      else if op = Add \<or> op = Sub then
        (case (affineI64ConstExpr negOv l loopVar, affineI64ConstExpr negOv r loopVar) of
           (Some (la, lb), Some (ra, rb)) \<Rightarrow>
             (let sign = (if op = Add then 1 else - 1) in checkedPair (la + sign * ra) (lb + sign * rb))
         | _ \<Rightarrow> None)
      else if op = Mul then
        (case evalConstI64Expr negOv l of
           Some lc \<Rightarrow>
             (case affineI64ConstExpr negOv r loopVar of
                None \<Rightarrow> None
              | Some (ra, rb) \<Rightarrow> checkedPair (lc * ra) (lc * rb))
         | None \<Rightarrow>
             (case evalConstI64Expr negOv r of
                Some rc \<Rightarrow>
                  (case affineI64ConstExpr negOv l loopVar of
                     None \<Rightarrow> None
                   | Some (la, lb) \<Rightarrow> checkedPair (rc * la) (rc * lb))
              | None \<Rightarrow> None))
      else None)"
| "affineI64ConstExpr negOv (EFloat v) loopVar = None"
| "affineI64ConstExpr negOv (EBool v) loopVar = None"
| "affineI64ConstExpr negOv (EString v) loopVar = None"
| "affineI64ConstExpr negOv (ECall f a) loopVar = None"

text \<open>
  \<^verbatim>\<open>absU64I64\<close>, \<^verbatim>\<open>gcdSmallI64\<close>, \<^verbatim>\<open>reduceDivisor\<close>, \<^verbatim>\<open>mul2Div2ExactI64\<close>,
  \<^verbatim>\<open>mul3Div6ExactI64\<close> and \<^verbatim>\<open>arithmeticSeriesSumI64\<close> (lines 4804--4858).  The \<^verbatim>\<open>uint64_t\<close>
  values of the gcd loop are natural numbers; the result is cast back to \<^verbatim>\<open>int64_t\<close>.
  \<^verbatim>\<open>reduceDivisor\<close> updates its two reference parameters and so returns the pair.
\<close>

definition absU64I64 :: "int \<Rightarrow> nat" where
  "absU64I64 v = (if v < 0 then nat (- (v + 1)) + 1 else nat v)"

function gcdLoop :: "nat \<Rightarrow> nat \<Rightarrow> nat" where
  "gcdLoop ua ub = (if ub \<noteq> 0 then gcdLoop ub (ua mod ub) else ua)"
  by pat_completeness auto
termination
  by (relation "measure snd") auto

declare gcdLoop.simps [simp del]

definition gcdSmallI64 :: "int \<Rightarrow> int \<Rightarrow> int" where
  "gcdSmallI64 a b = wrap64 (int (gcdLoop (absU64I64 a) (absU64I64 b)))"

definition reduceDivisor :: "int \<times> int \<Rightarrow> int \<times> int" where
  "reduceDivisor xd =
     (case xd of (x, den) \<Rightarrow>
        if den \<le> 1 then (x, den)
        else let g = gcdSmallI64 x den in
             if g > 1 then (x sdiv g, den sdiv g) else (x, den))"

definition mul2Div2ExactI64 :: "int \<Rightarrow> int \<Rightarrow> int option" where
  "mul2Div2ExactI64 a b =
     (case reduceDivisor (a, 2) of (x, den1) \<Rightarrow>
      case reduceDivisor (b, den1) of (y, den2) \<Rightarrow>
        if den2 \<noteq> 1 then None else checkedMulI64 x y)"

definition mul3Div6ExactI64 :: "int \<Rightarrow> int \<Rightarrow> int \<Rightarrow> int option" where
  "mul3Div6ExactI64 a b c =
     (case reduceDivisor (a, 6) of (x, den1) \<Rightarrow>
      case reduceDivisor (b, den1) of (y, den2) \<Rightarrow>
      case reduceDivisor (c, den2) of (z, den3) \<Rightarrow>
        if den3 \<noteq> 1 then None
        else case checkedMulI64 x y of
          None \<Rightarrow> None
        | Some xy \<Rightarrow> checkedMulI64 xy z)"

definition arithmeticSeriesSumI64 :: "int \<Rightarrow> int \<Rightarrow> int \<Rightarrow> int option" where
  "arithmeticSeriesSumI64 count start step =
     (if count \<le> 0 then Some 0
      else case checkedAddI64 count (- 1) of
        None \<Rightarrow> None
      | Some nMinus1 \<Rightarrow>
          (case checkedMulI64 nMinus1 step of
             None \<Rightarrow> None
           | Some spanv \<Rightarrow>
               (case checkedMulI64 2 start of
                  None \<Rightarrow> None
                | Some twoStart \<Rightarrow>
                    (case checkedAddI64 twoStart spanv of
                       None \<Rightarrow> None
                     | Some term \<Rightarrow> mul2Div2ExactI64 count term))))"

text \<open>
  \<^verbatim>\<open>modPosI64Const\<close> and \<^verbatim>\<open>modLinearSeriesSumI64\<close> (lines 4860--4913).  \<open>modCycle k cur d m acc\<close>
  is one of the two summing loops: it adds \<open>k\<close> residues to the 128-bit accumulator, stepping
  \<^verbatim>\<open>cur += d; if (cur >= m) cur -= m;\<close> in \<^verbatim>\<open>int64_t\<close>.
\<close>

definition modPosI64Const :: "int \<Rightarrow> int \<Rightarrow> int option" where
  "modPosI64Const x m =
     (if m \<le> 0 then None
      else let r = x smod m in Some (if r < 0 then r + m else r))"

fun modCycle :: "nat \<Rightarrow> int \<Rightarrow> int \<Rightarrow> int \<Rightarrow> int \<Rightarrow> int" where
  "modCycle 0 cur d m acc = acc"
| "modCycle (Suc k) cur d m acc =
     (let cur1 = wrap64 (cur + d);
          cur2 = (if cur1 \<ge> m then wrap64 (cur1 - m) else cur1)
      in modCycle k cur2 d m (acc + cur))"

definition modLinearSeriesSumI64 :: "int \<Rightarrow> int \<Rightarrow> int \<Rightarrow> int \<Rightarrow> int \<Rightarrow> int \<Rightarrow> int option" where
  "modLinearSeriesSumI64 iters start step a b m =
     (if iters \<le> 0 \<or> m \<le> 0 then Some 0
      else
        let aStart = checkedMulI64 a start;
            xRaw = (case aStart of Some v \<Rightarrow> checkedAddI64 v b | None \<Rightarrow> None);
            dRaw = checkedMulI64 a step;
            x0 = (case xRaw of Some v \<Rightarrow> modPosI64Const v m | None \<Rightarrow> None);
            d = (case dRaw of Some v \<Rightarrow> modPosI64Const v m | None \<Rightarrow> None)
        in case (x0, d) of
             (Some x0v, Some dv) \<Rightarrow>
               if dv = 0 then checkedI128ToI64 (x0v * iters)
               else
                 let g = gcdSmallI64 dv m in
                 if g \<le> 0 then None
                 else
                   let period = m sdiv g in
                   if period \<le> 0 then None
                   else if period > 8192 then None
                   else
                     let full = iters sdiv period;
                         rem = wrap64 (iters - wrap64 (full * period));
                         cycle = modCycle (nat period) x0v dv m 0;
                         tail = modCycle (nat rem) x0v dv m 0
                     in checkedI128ToI64 (full * cycle + tail)
           | _ \<Rightarrow> None)"

text \<open>
  The pair-coupled reduction of \<^verbatim>\<open>optBlock\<close> (lines 5562--5637) for a \<^verbatim>\<open>for\<close> statement whose
  start, stop and step have been resolved to the constants \<open>st\<close>, \<open>en\<close>, \<open>sp\<close>: \<open>parsePlusRed\<close>
  reads an assignment \<^verbatim>\<open>x = x + other\<close> (or \<^verbatim>\<open>x = other + x\<close>), \<open>tryFoldPair\<close> builds the two
  statements that replace the loop, and \<open>optForPairCoupled\<close> is the branch: the statements that
  replace the loop, or nothing when the branch does not apply.  Expressions built by the
  optimizer have no operator override.
\<close>

definition parsePlusRed :: "Stmt \<Rightarrow> (string \<times> Expr \<times> Span) option" where
  "parsePlusRed as =
     (case as of
        SAssign n v s \<Rightarrow>
          (case v of
             EBinary op l r ov \<Rightarrow>
               if op \<noteq> Add then None
               else
                 let leftSelf = (l = EVar n);
                     rightSelf = (r = EVar n)
                 in if \<not> leftSelf \<and> \<not> rightSelf then None
                    else let other = (if leftSelf then r else l)
                         in if exprHasVarName other n then None else Some (n, other, s)
           | _ \<Rightarrow> None)
      | _ \<Rightarrow> None)"

definition tryFoldPair ::
  "bool \<Rightarrow> string \<Rightarrow> int \<Rightarrow> int \<Rightarrow> int \<Rightarrow> string \<times> Expr \<times> Span \<Rightarrow> string \<times> Expr \<times> Span \<Rightarrow> Stmt list option" where
  "tryFoldPair negOv loopVar st sp N acc state =
     (case (acc, state) of ((accVar, accOther, accS), (stateVar, stateOther, stateS)) \<Rightarrow>
        if accOther \<noteq> EVar stateVar then None
        else if exprHasVarName stateOther accVar then None
        else if exprHasVarName stateOther stateVar then None
        else case affineI64ConstExpr negOv stateOther loopVar of
          None \<Rightarrow> None
        | Some (a, b) \<Rightarrow>
            (case arithmeticSeriesSumI64 N st sp of
               None \<Rightarrow> None
             | Some sumI \<Rightarrow>
                 let dY1 = checkedMulI64 a sumI;
                     dY2 = checkedMulI64 b N;
                     deltaY = (case (dY1, dY2) of (Some x, Some y) \<Rightarrow> checkedAddI64 x y | _ \<Rightarrow> None);
                     nMinus1 = checkedAddI64 N (- 1);
                     nMinus2 = checkedAddI64 N (- 2);
                     k1 = (case nMinus1 of Some x \<Rightarrow> mul2Div2ExactI64 N x | None \<Rightarrow> None);
                     k2 = (case (nMinus1, nMinus2) of (Some x, Some y) \<Rightarrow> mul3Div6ExactI64 N x y | _ \<Rightarrow> None);
                     aStart = checkedMulI64 a st;
                     c0 = (case aStart of Some x \<Rightarrow> checkedAddI64 x b | None \<Rightarrow> None);
                     c1 = checkedMulI64 a sp;
                     gw0 = (case (c0, k1) of (Some x, Some y) \<Rightarrow> checkedMulI64 x y | _ \<Rightarrow> None);
                     gw1 = (case (c1, k2) of (Some x, Some y) \<Rightarrow> checkedMulI64 x y | _ \<Rightarrow> None);
                     gw = (case (gw0, gw1) of (Some x, Some y) \<Rightarrow> checkedAddI64 x y | _ \<Rightarrow> None)
                 in case (deltaY, gw) of
                      (Some dY, Some g) \<Rightarrow>
                        Some [SAssign accVar
                                (EBinary Add (EVar accVar)
                                   (EBinary Add (EBinary Mul (EVar stateVar) (EInt N) []) (EInt g) []) [])
                                accS,
                              SAssign stateVar (EBinary Add (EVar stateVar) (EInt dY) []) stateS]
                    | _ \<Rightarrow> None))"

definition optForPairCoupled ::
  "bool \<Rightarrow> string \<Rightarrow> bool \<Rightarrow> int \<Rightarrow> int \<Rightarrow> int \<Rightarrow> Stmt list \<Rightarrow> Stmt list option" where
  "optForPairCoupled negOv loopVar parallel st en sp body =
     (case tripCount st en sp of
        None \<Rightarrow> None
      | Some tc \<Rightarrow>
          if tc > 0 \<and> \<not> parallel then
            (case body of
               [as0, as1] \<Rightarrow>
                 (case (parsePlusRed as0, parsePlusRed as1) of
                    (Some r0, Some r1) \<Rightarrow>
                      (case tryFoldPair negOv loopVar st sp tc r0 r1 of
                         Some rep \<Rightarrow> Some rep
                       | None \<Rightarrow> tryFoldPair negOv loopVar st sp tc r1 r0)
                  | _ \<Rightarrow> None)
             | _ \<Rightarrow> None)
          else None)"

text \<open>
  The single reduction of \<^verbatim>\<open>optBlock\<close> (lines 5638--5704), again for resolved constants: the
  body is \<^verbatim>\<open>x = x + other\<close>, or a \<^verbatim>\<open>declare\<close> of a temporary followed by \<^verbatim>\<open>x = x + tmp\<close>.  When
  \<open>other\<close> is \<^verbatim>\<open>affine % m\<close> with a constant \<open>m > 0\<close> the sum is taken from
  \<^verbatim>\<open>modLinearSeriesSumI64\<close>, otherwise, when \<open>other\<close> is affine, from the arithmetic series.  The
  result is the assignment that replaces the loop; \<open>forS\<close> is the span of the \<^verbatim>\<open>for\<close>.
\<close>

definition extractOther :: "string \<Rightarrow> Expr \<Rightarrow> string option \<Rightarrow> Expr option" where
  "extractOther n v requiredVar =
     (case v of
        EBinary op l r ov \<Rightarrow>
          if op \<noteq> Add then None
          else
            let leftSelf = (l = EVar n);
                rightSelf = (r = EVar n)
            in if \<not> leftSelf \<and> \<not> rightSelf then None
               else let other = (if leftSelf then r else l)
                    in (case requiredVar of
                          None \<Rightarrow> Some other
                        | Some rv \<Rightarrow> if other = EVar rv then Some other else None)
      | _ \<Rightarrow> None)"

definition reductionDelta :: "bool \<Rightarrow> string \<Rightarrow> int \<Rightarrow> int \<Rightarrow> int \<Rightarrow> Expr \<Rightarrow> int option" where
  "reductionDelta negOv loopVar st sp tc otherExpr =
     (let deltaMod =
        (case otherExpr of
           EBinary op l r ov \<Rightarrow>
             if op = Mod then
               (case (evalConstI64Expr negOv r, affineI64ConstExpr negOv l loopVar) of
                  (Some m, Some (a, b)) \<Rightarrow> if m > 0 then modLinearSeriesSumI64 tc st sp a b m else None
                | _ \<Rightarrow> None)
             else None
         | _ \<Rightarrow> None)
      in case deltaMod of
           Some d \<Rightarrow> Some d
         | None \<Rightarrow>
             (case affineI64ConstExpr negOv otherExpr loopVar of
                None \<Rightarrow> None
              | Some (a, b) \<Rightarrow>
                  let sumIdx = (tc * (2 * st + (tc - 1) * sp)) sdiv 2
                  in checkedI128ToI64 (a * sumIdx + b * tc)))"

definition optForSingleReduction ::
  "bool \<Rightarrow> string \<Rightarrow> bool \<Rightarrow> int \<Rightarrow> int \<Rightarrow> int \<Rightarrow> Stmt list \<Rightarrow> Span \<Rightarrow> Stmt option" where
  "optForSingleReduction negOv loopVar parallel st en sp body forS =
     (case tripCount st en sp of
        None \<Rightarrow> None
      | Some tc \<Rightarrow>
          if tc > 0 \<and> \<not> parallel then
            (let found =
               (case body of
                  [SAssign n v s] \<Rightarrow>
                    (case extractOther n v None of
                       Some other \<Rightarrow> Some (n, other)
                     | None \<Rightarrow> None)
                | [SLet tn tdecl tconst towned tfr tv ts, SAssign n v s] \<Rightarrow>
                    if tn \<noteq> loopVar \<and> \<not> exprHasVarName tv tn then
                      (case extractOther n v (Some tn) of
                         Some other \<Rightarrow> Some (n, tv)
                       | None \<Rightarrow> None)
                    else None
                | _ \<Rightarrow> None)
             in case found of
                  None \<Rightarrow> None
                | Some (n, otherExpr) \<Rightarrow>
                    if exprHasVarName otherExpr n then None
                    else case reductionDelta negOv loopVar st sp tc otherExpr of
                      None \<Rightarrow> None
                    | Some deltaI \<Rightarrow> Some (SAssign n (EBinary Add (EVar n) (EInt deltaI) []) forS))
          else None)"

text \<open>
  The meaning of a loop \<^verbatim>\<open>for i in a..b step s\<close> as the specification gives it: the body runs
  once for each \<open>i = a, a + s, a + 2 s, ...\<close> as long as \<open>i < b\<close> (\<open>i > b\<close> for a negative step),
  so that \<^verbatim>\<open>for i in 0..5 do println(i) end\<close> prints 0 to 4.  The statements of the body have the
  meaning of the reference semantics; the loop variable is a fresh local of each iteration.
\<close>

fun for_loop_spec :: "nat \<Rightarrow> string \<Rightarrow> int \<Rightarrow> int \<Rightarrow> int \<Rightarrow> Stmt list \<Rightarrow> exec_state \<Rightarrow> exec_state option" where
  "for_loop_spec 0 n i stop step b st = None"
| "for_loop_spec (Suc fuel) n i stop step b st =
     (if (step > 0 \<and> i < stop) \<or> (step < 0 \<and> i > stop) then
        (case exec_block fuel b (st\<lparr>st_vars := (n, VInt i) # st_vars st\<rparr>) of
           Some (Normal, st') \<Rightarrow>
             for_loop_spec fuel n (i + step) stop step b
               (st'\<lparr>st_vars := drop (length (st_vars st') - length (st_vars st)) (st_vars st')\<rparr>)
         | _ \<Rightarrow> None)
      else Some st)"

text \<open>
  The loop bodies of the examples: \<^verbatim>\<open>acc = acc + state; state = state + (i + 1)\<close> of scenario D,
  and \<^verbatim>\<open>acc = acc + ((i - 5) % 3)\<close>.
\<close>

definition body_scenario_D :: "Stmt list" where
  "body_scenario_D =
     [SAssign ''acc'' (EBinary Add (EVar ''acc'') (EVar ''state'') []) (1, 40),
      SAssign ''state'' (EBinary Add (EVar ''state'') (EBinary Add (EVar ''i'') (EInt 1) []) []) (1, 60)]"

definition body_mod_linear :: "Stmt list" where
  "body_mod_linear =
     [SAssign ''acc'' (EBinary Add (EVar ''acc'') (EBinary Mod (EBinary Sub (EVar ''i'') (EInt 5) []) (EInt 3) []) [])
        (1, 40)]"

section \<open>Properties of the lexer\<close>

lemma adv_pos: "\<not> eof L \<Longrightarrow> pos (snd (adv L)) = Suc (pos L)"
  by (simp add: adv_def Let_def)

lemma adv_src: "src (snd (adv L)) = src L"
  by (simp add: adv_def Let_def)

lemma adv_char: "\<not> eof L \<Longrightarrow> fst (adv L) = src L ! pos L"
  by (simp add: adv_def Let_def)


lemma drop_Nil_eof: "drop (pos L) (src L) = [] \<Longrightarrow> eof L"
  by (simp add: eof_def)

lemma drop_Cons_adv:
  assumes "drop (pos L) (src L) = c # rest"
  shows "\<not> eof L" and "fst (adv L) = c" and "drop (pos (snd (adv L))) (src (snd (adv L))) = rest"
proof -
  from assms have lt: "pos L < length (src L)"
    by (metis drop_all leI list.distinct(1))
  then show ne: "\<not> eof L" by (simp add: eof_def)
  from lt have "drop (pos L) (src L) = src L ! pos L # drop (Suc (pos L)) (src L)"
    by (simp add: Cons_nth_drop_Suc)
  with assms have "src L ! pos L = c" "drop (Suc (pos L)) (src L) = rest" by simp_all
  then show "fst (adv L) = c" "drop (pos (snd (adv L))) (src (snd (adv L))) = rest"
    using ne by (simp_all add: adv_char adv_pos adv_src)
qed

lemma readString_loop_eof:
  "eof L \<Longrightarrow> readString_loop s out L = Inl (CompileError s ''unterminated string literal'')"
  by (subst readString_loop.simps) simp

text \<open>
  The loop of \<^verbatim>\<open>readString\<close> decides exactly as the lexical rule does on the bytes from the
  cursor on, and every error it raises carries the span \<open>s\<close> it was started with.
\<close>

lemma readString_loop_refines:
  "xs = drop (pos L) (src L) \<Longrightarrow>
   (string_literal_body xs out = None \<longrightarrow> (\<exists>msg. readString_loop s out L = Inl (CompileError s msg))) \<and>
   (\<forall>t. string_literal_body xs out = Some t \<longrightarrow>
      (\<exists>L'. readString_loop s out L = Inr (\<lparr>kind = TkStr, ttext = t, span = s\<rparr>, L')))"
proof (induction xs out arbitrary: L rule: string_literal_body.induct)
  case (1 out)
  then have "eof L" by (simp add: drop_Nil_eof)
  then show ?case by (simp add: readString_loop_eof)
next
  case (2 c out)
  note a = drop_Cons_adv[OF "2.prems"[symmetric]]
  have e1: "eof (snd (adv L))" using a(3) by (rule drop_Nil_eof)
  show ?case
    using a(1,2) e1
    by (simp add: readString_loop.simps[of s out L] Let_def readString_loop_eof)
next
  case (3 c e cs out)
  note a = drop_Cons_adv[OF "3.prems"[symmetric]]
  note b = drop_Cons_adv[OF a(3)]
  show ?case
  proof (cases "c = CHR 0x22")
    case True
    then show ?thesis using a(1,2) by (simp add: readString_loop.simps[of s out L] Let_def)
  next
    case nq: False
    show ?thesis
    proof (cases "c = CHR 0x5C")
      case True
      show ?thesis
      proof (cases "escape_char e")
        case None
        then show ?thesis using a(1,2) b(1,2) True nq
          by (simp add: readString_loop.simps[of s out L] Let_def escape_char_def split: if_splits)
      next
        case (Some d)
        from "3.IH"(1)[OF nq True Some b(3)[symmetric]] Some
        show ?thesis using a(1,2) b(1,2) True nq
          by (auto simp add: readString_loop.simps[of s out L] Let_def escape_char_def split: if_splits)
      qed
    next
      case nb: False
      show ?thesis
      proof (cases "c = CHR 0x0A")
        case True
        then show ?thesis using a(1,2) nq nb by (simp add: readString_loop.simps[of s out L] Let_def)
      next
        case False
        from "3.IH"(2)[OF nq nb False a(3)[symmetric]]
        show ?thesis using a(1,2) nq nb False
          by (simp add: readString_loop.simps[of s out L] Let_def)
      qed
    qed
  qed
qed

text \<open>
  Claim C9.  Started on the opening quote of a literal, \<^verbatim>\<open>readString\<close> accepts exactly the
  escapes \<^verbatim>\<open>\n \r \t \\ \"\<close> (decoded to line feed, carriage return, tab, backslash, quote):
  when the bytes after the opening quote form a literal by the lexical rule, it returns a
  string token with the decoded text and the literal's span; in every other case (another
  character after a backslash, a raw line feed or the end of input before the closing quote) it
  fails with a \<^verbatim>\<open>CompileError\<close> that carries the span of the literal.
\<close>

theorem readString_accepts_exactly_the_five_escapes:
  "(case string_literal_body (drop (Suc (pos L)) (src L)) [] of
      None \<Rightarrow> \<exists>msg. readString L = Inl (CompileError (line L, col L) msg)
    | Some t \<Rightarrow> \<exists>L'. readString L = Inr (\<lparr>kind = TkStr, ttext = t, span = (line L, col L)\<rparr>, L'))"
proof -
  have "drop (Suc (pos L)) (src L) = drop (pos (snd (adv L))) (src (snd (adv L)))"
  proof (cases "eof L")
    case True
    then show ?thesis by (simp add: adv_def eof_def)
  next
    case False
    then show ?thesis by (simp add: adv_pos adv_src)
  qed
  from readString_loop_refines[OF this, where out="[]" and s="(line L, col L)"]
  show ?thesis by (simp add: readString_def split: option.splits)
qed

theorem readString_accepts_exactly_the_five_escapes_witness:
  "(\<exists>L'. readString \<lparr>src = [CHR 0x22, CHR ''a'', CHR 0x5C, CHR ''n'', CHR 0x22, CHR ''x''],
                        pos = 0, line = 1, col = 1\<rparr>
          = Inr (\<lparr>kind = TkStr, ttext = [CHR ''a'', CHR 0x0A], span = (1, 1)\<rparr>, L')) \<and>
   (\<exists>msg. readString \<lparr>src = [CHR 0x22, CHR ''a'', CHR 0x5C, CHR ''q'', CHR 0x22],
                         pos = 0, line = 3, col = 7\<rparr>
          = Inl (CompileError (3, 7) msg))"
  using readString_accepts_exactly_the_five_escapes
          [of "\<lparr>src = [CHR 0x22, CHR ''a'', CHR 0x5C, CHR ''n'', CHR 0x22, CHR ''x''],
                pos = 0, line = 1, col = 1\<rparr>"]
        readString_accepts_exactly_the_five_escapes
          [of "\<lparr>src = [CHR 0x22, CHR ''a'', CHR 0x5C, CHR ''q'', CHR 0x22],
                pos = 0, line = 3, col = 7\<rparr>"]
  by (simp add: escape_char_def)

section \<open>Properties of the optimizer's trip count\<close>

text \<open>
  Claim C6 (the code departs from it).  For the loop
  \<^verbatim>\<open>for i in -9223372036854775807..2 step 9223372036854775807\<close> the bounds are \<^verbatim>\<open>i64\<close>
  constants and the step is positive, so the trip count should be the ceiling of
  \<open>(b - a) / s\<close>, which is 2: the emitted C loop runs its body twice, and the emitted
  \<^verbatim>\<open>ls_trip_count_runtime\<close>, which computes in 128 bits, returns 2.  The optimizer's
  \<^verbatim>\<open>tripCount\<close> computes \<^verbatim>\<open>stop - start + step - 1\<close> in \<^verbatim>\<open>int64_t\<close>; the subtraction wraps
  around and the function returns 0, the value for which \<^verbatim>\<open>optBlock\<close> erases the loop.
\<close>

theorem tripCount_wraps_to_zero_on_a_loop_that_runs_twice:
  "tripCount (- 9223372036854775807) 2 9223372036854775807 = Some 0 \<and>
   trip_count_spec (- 9223372036854775807) 2 9223372036854775807 = Some 2 \<and>
   ls_trip_count_runtime (- 9223372036854775807) 2 9223372036854775807 = 2 \<and>
   c_for_iterations 3 (- 9223372036854775807) 2 9223372036854775807 = Some 2"
proof (intro conjI)
  show "tripCount (- 9223372036854775807) 2 9223372036854775807 = Some 0"
    by (simp add: tripCount_def wrap64_def signed_divide_int_def)
  show "trip_count_spec (- 9223372036854775807) 2 9223372036854775807 = Some 2"
    by (simp add: trip_count_spec_def ceil_div_def)
  show "ls_trip_count_runtime (- 9223372036854775807) 2 9223372036854775807 = 2"
    by (simp add: ls_trip_count_runtime_def wrap64_def signed_divide_int_def)
  show "c_for_iterations 3 (- 9223372036854775807) 2 9223372036854775807 = Some 2"
    by (simp add: numeral_3_eq_3 wrap64_def)
qed

section \<open>Properties of dead-store elimination\<close>

text \<open>
  Claim C3 (the code departs from it).  In the program
  \<^verbatim>\<open>declare x: i64 = 0; if x == 0 { x = 5 }; println(x)\<close> the store \<^verbatim>\<open>x = 5\<close> is observed by
  the \<^verbatim>\<open>println\<close> that follows the conditional.  \<^verbatim>\<open>pruneDeadLocalStores\<close> descends into the
  branch and looks for a later read only inside the branch itself, finds none, and erases the
  store: the program printed \<^verbatim>\<open>5\<close> before the pass and prints \<^verbatim>\<open>0\<close> after it.
\<close>

theorem pruneDeadLocalStores_removes_an_observed_store:
  "pruneDeadLocalStores
     [SLet ''x'' (Some I64) False False [] (EInt 0) (1, 1),
      SIf (EBinary Eq (EVar ''x'') (EInt 0) []) [SAssign ''x'' (EInt 5) (2, 13)] [] (2, 1),
      SExpr (ECall ''println'' [EVar ''x'']) (3, 1)]
   = (True,
      [SLet ''x'' (Some I64) False False [] (EInt 0) (1, 1),
       SIf (EBinary Eq (EVar ''x'') (EInt 0) []) [] [] (2, 1),
       SExpr (ECall ''println'' [EVar ''x'']) (3, 1)]) \<and>
   map_option (st_out \<circ> snd)
     (exec_block 10
        [SLet ''x'' (Some I64) False False [] (EInt 0) (1, 1),
         SIf (EBinary Eq (EVar ''x'') (EInt 0) []) [SAssign ''x'' (EInt 5) (2, 13)] [] (2, 1),
         SExpr (ECall ''println'' [EVar ''x'']) (3, 1)]
        \<lparr>st_vars = [], st_out = []\<rparr>) = Some [CHR ''5'', CHR 0x0A] \<and>
   map_option (st_out \<circ> snd)
     (exec_block 10
        [SLet ''x'' (Some I64) False False [] (EInt 0) (1, 1),
         SIf (EBinary Eq (EVar ''x'') (EInt 0) []) [] [] (2, 1),
         SExpr (ECall ''println'' [EVar ''x'']) (3, 1)]
        \<lparr>st_vars = [], st_out = []\<rparr>) = Some [CHR ''0'', CHR 0x0A]"
proof (intro conjI)
  show "pruneDeadLocalStores
     [SLet ''x'' (Some I64) False False [] (EInt 0) (1, 1),
      SIf (EBinary Eq (EVar ''x'') (EInt 0) []) [SAssign ''x'' (EInt 5) (2, 13)] [] (2, 1),
      SExpr (ECall ''println'' [EVar ''x'']) (3, 1)]
   = (True,
      [SLet ''x'' (Some I64) False False [] (EInt 0) (1, 1),
       SIf (EBinary Eq (EVar ''x'') (EInt 0) []) [] [] (2, 1),
       SExpr (ECall ''println'' [EVar ''x'']) (3, 1)])"
    by (simp add: blockReadsNamed_def)
  show "map_option (st_out \<circ> snd)
     (exec_block 10
        [SLet ''x'' (Some I64) False False [] (EInt 0) (1, 1),
         SIf (EBinary Eq (EVar ''x'') (EInt 0) []) [SAssign ''x'' (EInt 5) (2, 13)] [] (2, 1),
         SExpr (ECall ''println'' [EVar ''x'']) (3, 1)]
        \<lparr>st_vars = [], st_out = []\<rparr>) = Some [CHR ''5'', CHR 0x0A]"
    by code_simp
  show "map_option (st_out \<circ> snd)
     (exec_block 10
        [SLet ''x'' (Some I64) False False [] (EInt 0) (1, 1),
         SIf (EBinary Eq (EVar ''x'') (EInt 0) []) [] [] (2, 1),
         SExpr (ECall ''println'' [EVar ''x'']) (3, 1)]
        \<lparr>st_vars = [], st_out = []\<rparr>) = Some [CHR ''0'', CHR 0x0A]"
    by code_simp
qed

section \<open>Properties of overload resolution\<close>

lemma conversionCost_arg_cost:
  "conversionCost a p = (case arg_cost a p of None \<Rightarrow> - 1 | Some c \<Rightarrow> c)"
  by (cases a; cases p; simp add: conversionCost_def canSafeWiden_def arg_cost_def safe_widenings_def)

lemma arg_cost_range: "arg_cost a p = Some c \<Longrightarrow> 0 \<le> c \<and> c \<le> 1"
  by (auto simp: arg_cost_def split: if_splits)

lemma total_cost_length: "total_cost as ps = Some k \<Longrightarrow> length ps = length as"
  by (induction as ps arbitrary: k rule: total_cost.induct) (auto split: option.splits)

lemma total_cost_range: "total_cost as ps = Some k \<Longrightarrow> 0 \<le> k \<and> k \<le> int (length as)"
proof (induction as ps arbitrary: k rule: total_cost.induct)
  case (2 a as p ps)
  then show ?case by (fastforce split: option.splits dest: arg_cost_range)
qed auto

lemma costLoop_total_cost:
  "length ps = length as \<Longrightarrow> costLoop (zip as ps) k = map_option ((+) k) (total_cost as ps)"
proof (induction as ps arbitrary: k rule: total_cost.induct)
  case (2 a as p ps)
  then show ?case
    by (cases "arg_cost a p"; cases "total_cost as ps")
       (auto simp: conversionCost_arg_cost Let_def dest: arg_cost_range)
qed auto

lemma candidate_cost:
  "(if length (sig_p (sig c)) \<noteq> length as then None else costLoop (zip as (sig_p (sig c))) 0)
   = total_cost as (sig_p (sig c))"
proof (cases "length (sig_p (sig c)) = length as")
  case True
  then show ?thesis by (cases "total_cost as (sig_p (sig c))") (simp_all add: costLoop_total_cost)
next
  case False
  then show ?thesis by (cases "total_cost as (sig_p (sig c))") (auto dest: total_cost_length)
qed

text \<open>
  The loop invariant of \<^verbatim>\<open>resolveOverload\<close>: over the viable candidates \<open>V\<close> seen so far,
  \<^verbatim>\<open>bestCost\<close> is their minimum cost, \<^verbatim>\<open>best\<close> the first of them at that cost, and
  \<^verbatim>\<open>ambiguous\<close> says that it is not the only one.
\<close>

definition tcost :: "Type list \<Rightarrow> OverloadCandidate \<Rightarrow> int option" where
  "tcost as c = total_cost as (sig_p (sig c))"

definition resolve_inv :: "Type list \<Rightarrow> OverloadCandidate list \<Rightarrow> int \<times> OverloadCandidate option \<times> bool \<Rightarrow> bool" where
  "resolve_inv as V st =
     (case st of (bc, b, amb) \<Rightarrow>
        if V = [] then bc = INT_MAX \<and> b = None \<and> \<not> amb
        else bc = Min (set (map (\<lambda>c. the (tcost as c)) V)) \<and>
             b = Some (hd (filter (\<lambda>c. tcost as c = Some bc) V)) \<and>
             amb = (length (filter (\<lambda>c. tcost as c = Some bc) V) \<noteq> 1))"

lemma resolve_inv_step:
  assumes inv: "resolve_inv as V (bc, b, amb)"
    and V: "\<forall>c\<in>set V. \<exists>k. tcost as c = Some k \<and> k < INT_MAX"
    and c: "tcost as c = Some k" "k < INT_MAX"
  shows "resolve_inv as (V @ [c])
           (if k < bc then (k, Some c, False) else if k = bc then (bc, b, True) else (bc, b, amb))"
proof (cases "V = []")
  case True
  with inv c show ?thesis by (simp add: resolve_inv_def)
next
  case False
  define m where "m = Min (set (map (\<lambda>c. the (tcost as c)) V))"
  have bc: "bc = m" and b: "b = Some (hd (filter (\<lambda>c. tcost as c = Some m) V))"
    and amb: "amb = (length (filter (\<lambda>c. tcost as c = Some m) V) \<noteq> 1)"
    using inv False by (simp_all add: resolve_inv_def m_def)
  have fin: "finite (set (map (\<lambda>c. the (tcost as c)) V))" "set (map (\<lambda>c. the (tcost as c)) V) \<noteq> {}"
    using False by simp_all
  have m_le: "\<And>d. d \<in> set V \<Longrightarrow> m \<le> the (tcost as d)"
    unfolding m_def using fin by (simp add: Min_le)
  have m_in: "m \<in> set (map (\<lambda>c. the (tcost as c)) V)"
    unfolding m_def using fin by (rule Min_in)
  then obtain d where d: "d \<in> set V" "the (tcost as d) = m" by auto
  with V have dm: "tcost as d = Some m" by force
  then have wne: "filter (\<lambda>c. tcost as c = Some m) V \<noteq> []"
    using d(1) by (auto simp: filter_empty_conv)
  have newMin: "Min (set (map (\<lambda>c. the (tcost as c)) (V @ [c]))) = min k m"
    using fin c by (simp add: m_def)
  show ?thesis
  proof (cases "k < m")
    case True
    have "filter (\<lambda>c. tcost as c = Some k) V = []"
      using m_le True by (fastforce simp: filter_empty_conv)
    with True c newMin bc show ?thesis by (simp add: resolve_inv_def min_def)
  next
    case nlt: False
    show ?thesis
    proof (cases "k = m")
      case True
      have "length (filter (\<lambda>c. tcost as c = Some m) V) \<ge> 1"
        using wne by (cases "filter (\<lambda>c. tcost as c = Some m) V") auto
      with True c newMin bc b wne show ?thesis by (simp add: resolve_inv_def)
    next
      case False
      with nlt have "m < k" by simp
      with c newMin bc b amb show ?thesis by (simp add: resolve_inv_def min_def)
    qed
  qed
qed

lemma resolveLoop_Cons:
  "resolveLoop as (cand # cands) (bc, b, amb) =
     (case tcost as cand of
        None \<Rightarrow> resolveLoop as cands (bc, b, amb)
      | Some k \<Rightarrow> resolveLoop as cands
          (if k < bc then (k, Some cand, False) else if k = bc then (bc, b, True) else (bc, b, amb)))"
  using candidate_cost[of cand as]
  by (auto simp: tcost_def split: option.splits if_splits)

lemma resolveLoop_inv:
  assumes "int (length as) < INT_MAX"
  shows "resolve_inv as V st \<Longrightarrow> (\<forall>c\<in>set V. \<exists>k. tcost as c = Some k \<and> k < INT_MAX) \<Longrightarrow>
         resolve_inv as (V @ filter (\<lambda>c. tcost as c \<noteq> None) cands) (resolveLoop as cands st)"
proof (induction cands arbitrary: V st)
  case Nil
  then show ?case by simp
next
  case (Cons cand cands)
  obtain bc b amb where st: "st = (bc, b, amb)" by (cases st)
  show ?case
  proof (cases "tcost as cand")
    case None
    with Cons st show ?thesis by (simp add: resolveLoop_Cons del: resolveLoop.simps(2))
  next
    case (Some k)
    then have k: "k < INT_MAX"
      using total_cost_range[of as "sig_p (sig cand)" k] assms by (simp add: tcost_def)
    let ?st' = "if k < bc then (k, Some cand, False) else if k = bc then (bc, b, True) else (bc, b, amb)"
    have i1: "resolve_inv as (V @ [cand]) ?st'"
      using resolve_inv_step[OF Cons.prems(1)[unfolded st] Cons.prems(2) Some k] .
    have i2: "\<forall>c\<in>set (V @ [cand]). \<exists>k. tcost as c = Some k \<and> k < INT_MAX"
      using Cons.prems(2) Some k by auto
    from Cons.IH[OF i1 i2] Some st show ?thesis
      by (simp add: resolveLoop_Cons del: resolveLoop.simps(2))
  qed
qed

lemma resolveLoop_spec:
  assumes "int (length as) < INT_MAX"
  shows "resolve_inv as (filter (\<lambda>c. tcost as c \<noteq> None) cands) (resolveLoop as cands (INT_MAX, None, False))"
  using resolveLoop_inv[OF assms, of "[]" "(INT_MAX, None, False)" cands]
  by (simp add: resolve_inv_def)

lemma resolveOverload_refines:
  assumes "int (length argTypes) < INT_MAX"
  shows "resolveOverload su overloads warnings name argTypes s =
      (case overloads name of
         None \<Rightarrow> Inr (None, warnings)
       | Some cands \<Rightarrow>
           (case choose_overload su cands argTypes of
              NoMatch \<Rightarrow> Inr (None, warnings)
            | Chosen c \<Rightarrow> Inr (Some c, warnings)
            | ChosenWithWarning c \<Rightarrow> Inr (Some c, warn s (ambiguous_warning name) warnings)
            | Ambiguous \<Rightarrow> Inl (CompileError s (ambiguous_error name))))"
proof (cases "overloads name")
  case None
  then show ?thesis by (simp add: resolveOverload_def)
next
  case (Some cands)
  define V where "V = filter (\<lambda>c. tcost argTypes c \<noteq> None) cands"
  obtain bc b amb where st: "resolveLoop argTypes cands (INT_MAX, None, False) = (bc, b, amb)"
    by (cases "resolveLoop argTypes cands (INT_MAX, None, False)")
  have inv: "resolve_inv argTypes V (bc, b, amb)"
    using resolveLoop_spec[OF assms, of cands] st by (simp add: V_def)
  show ?thesis
  proof (cases "V = []")
    case True
    with inv Some st show ?thesis
      by (simp add: resolveOverload_def resolve_inv_def choose_overload_def V_def tcost_def)
  next
    case False
    with inv Some st show ?thesis
      by (auto simp add: resolveOverload_def resolve_inv_def choose_overload_def V_def tcost_def Let_def)
  qed
qed

lemma callGeneral_rewrites_target:
  "resolveOverload su overloads warnings (canonicalSuperuserCallName f) (map fst args) s = Inr (Some c, w1) \<Longrightarrow>
   callGeneral su sigs overloads throwsAllowed warnings f args s = Inr (f', t, w') \<Longrightarrow>
   f' = symbol c"
  by (auto simp: callGeneral_def Let_def split: sum.splits option.splits prod.splits if_splits)

text \<open>
  Claim C5.  For a call with fewer than \<^verbatim>\<open>INT_MAX\<close> arguments: \<^verbatim>\<open>conversionCost\<close> is 0 for an
  exact match, 1 for one of the five safe widenings and \<open>-1\<close> otherwise; \<^verbatim>\<open>resolveOverload\<close>
  returns the candidate of matching arity and convertible arguments whose summed cost is the
  unique minimum, throws \<^verbatim>\<open>ambiguous overload for function 'name'\<close> on a tie at the minimum,
  and in superuser mode instead keeps the first of the tied candidates and adds the line
  \<^verbatim>\<open>line L, col C: warning: superuser mode: ambiguous overload for 'name'; keeping first candidate\<close>
  to the warnings; and the call that was being checked ends with the chosen candidate's symbol
  as its target.
\<close>

theorem resolveOverload_picks_unique_minimum_cost:
  assumes "int (length argTypes) < INT_MAX"
  shows "(\<forall>a p. conversionCost a p = (case arg_cost a p of None \<Rightarrow> - 1 | Some c \<Rightarrow> c)) \<and>
    resolveOverload su overloads warnings name argTypes s =
      (case overloads name of
         None \<Rightarrow> Inr (None, warnings)
       | Some cands \<Rightarrow>
           (case choose_overload su cands argTypes of
              NoMatch \<Rightarrow> Inr (None, warnings)
            | Chosen c \<Rightarrow> Inr (Some c, warnings)
            | ChosenWithWarning c \<Rightarrow>
                Inr (Some c,
                     warnings @
                     [''line '' @ to_string (int (fst s)) @ '', col '' @ to_string (int (snd s)) @
                      '': warning: superuser mode: ambiguous overload for '' @ [CHR 0x27] @ name @ [CHR 0x27] @
                      ''; keeping first candidate''])
            | Ambiguous \<Rightarrow>
                Inl (CompileError s (''ambiguous overload for function '' @ [CHR 0x27] @ name @ [CHR 0x27])))) \<and>
    (\<forall>sigs throwsAllowed f args c w1 f' t w'.
       resolveOverload su overloads warnings (canonicalSuperuserCallName f) (map fst args) s = Inr (Some c, w1) \<longrightarrow>
       callGeneral su sigs overloads throwsAllowed warnings f args s = Inr (f', t, w') \<longrightarrow>
       f' = symbol c)"
proof -
  have m: "warn s (ambiguous_warning name) warnings =
           warnings @
           [''line '' @ to_string (int (fst s)) @ '', col '' @ to_string (int (snd s)) @
            '': warning: superuser mode: ambiguous overload for '' @ [CHR 0x27] @ name @ [CHR 0x27] @
            ''; keeping first candidate'']"
    "ambiguous_error name = ''ambiguous overload for function '' @ [CHR 0x27] @ name @ [CHR 0x27]"
    by (simp_all add: warn_def ambiguous_warning_def ambiguous_error_def)
  show ?thesis
    using resolveOverload_refines[OF assms, of su overloads warnings name s, unfolded m]
      conversionCost_arg_cost callGeneral_rewrites_target
    by blast
qed

definition overloads_example :: "string \<Rightarrow> OverloadCandidate list option" where
  "overloads_example =
     (\<lambda>n. if n = ''f'' then Some
        [\<lparr>symbol = ''f'', sig = \<lparr>sig_p = [I64], sig_r = I64, sig_throws = []\<rparr>\<rparr>,
         \<lparr>symbol = ''__ls_ovl_f_1'', sig = \<lparr>sig_p = [F64], sig_r = F64, sig_throws = []\<rparr>\<rparr>,
         \<lparr>symbol = ''__ls_ovl_f_2'', sig = \<lparr>sig_p = [F32], sig_r = F32, sig_throws = []\<rparr>\<rparr>]
      else None)"

theorem resolveOverload_picks_unique_minimum_cost_witness:
  "int (length [I64]) < INT_MAX \<and>
   resolveOverload False overloads_example [] ''f'' [I64] (1, 1) =
     Inr (Some \<lparr>symbol = ''f'', sig = \<lparr>sig_p = [I64], sig_r = I64, sig_throws = []\<rparr>\<rparr>, []) \<and>
   resolveOverload False overloads_example [] ''f'' [F32] (1, 1) =
     Inr (Some \<lparr>symbol = ''__ls_ovl_f_2'', sig = \<lparr>sig_p = [F32], sig_r = F32, sig_throws = []\<rparr>\<rparr>, []) \<and>
   resolveOverload False overloads_example [] ''f'' [I32] (1, 1) =
     Inl (CompileError (1, 1) (''ambiguous overload for function '' @ [CHR 0x27] @ ''f'' @ [CHR 0x27])) \<and>
   resolveOverload True overloads_example [''line 1, col 1: warning: earlier''] ''f'' [I32] (2, 7) =
     Inr (Some \<lparr>symbol = ''f'', sig = \<lparr>sig_p = [I64], sig_r = I64, sig_throws = []\<rparr>\<rparr>,
          [''line 1, col 1: warning: earlier'',
           ''line 2, col 7: warning: superuser mode: ambiguous overload for '' @ [CHR 0x27] @ ''f'' @ [CHR 0x27] @
           ''; keeping first candidate'']) \<and>
   resolveOverload False overloads_example [] ''f'' [Str] (1, 1) = Inr (None, []) \<and>
   callGeneral False (\<lambda>n. None) overloads_example (\<lambda>e. False) [] ''f'' [(F32, (1, 3))] (1, 1) =
     Inr (''__ls_ovl_f_2'', F32, [])"
proof -
  have small: "\<And>t. int (length [t::Type]) < INT_MAX" by (simp add: INT_MAX_def)
  note r = resolveOverload_picks_unique_minimum_cost
  have e: "arg_cost I64 I64 = Some 0" "arg_cost I64 F64 = Some 1" "arg_cost I64 F32 = None"
    "arg_cost F32 I64 = None" "arg_cost F32 F64 = Some 1" "arg_cost F32 F32 = Some 0"
    "arg_cost I32 I64 = Some 1" "arg_cost I32 F64 = Some 1" "arg_cost I32 F32 = Some 1"
    "arg_cost Str I64 = None" "arg_cost Str F64 = None" "arg_cost Str F32 = None"
    by (simp_all add: arg_cost_def safe_widenings_def)
  have c1: "resolveOverload False overloads_example [] ''f'' [I64] (1, 1) =
     Inr (Some \<lparr>symbol = ''f'', sig = \<lparr>sig_p = [I64], sig_r = I64, sig_throws = []\<rparr>\<rparr>, [])"
    using r[OF small, of False overloads_example "[]" "''f''" I64 "(1, 1)"]
    by (simp add: overloads_example_def choose_overload_def e)
  have c2: "resolveOverload False overloads_example [] ''f'' [F32] (1, 1) =
     Inr (Some \<lparr>symbol = ''__ls_ovl_f_2'', sig = \<lparr>sig_p = [F32], sig_r = F32, sig_throws = []\<rparr>\<rparr>, [])"
    using r[OF small, of False overloads_example "[]" "''f''" F32 "(1, 1)"]
    by (simp add: overloads_example_def choose_overload_def e)
  have c3: "resolveOverload False overloads_example [] ''f'' [I32] (1, 1) =
     Inl (CompileError (1, 1) (''ambiguous overload for function '' @ [CHR 0x27] @ ''f'' @ [CHR 0x27]))"
    using r[OF small, of False overloads_example "[]" "''f''" I32 "(1, 1)"]
    by (simp add: overloads_example_def choose_overload_def e)
  have d: "to_string 2 = ''2''" "to_string 7 = ''7''" by code_simp+
  have c4: "resolveOverload True overloads_example [''line 1, col 1: warning: earlier''] ''f'' [I32] (2, 7) =
     Inr (Some \<lparr>symbol = ''f'', sig = \<lparr>sig_p = [I64], sig_r = I64, sig_throws = []\<rparr>\<rparr>,
          [''line 1, col 1: warning: earlier'',
           ''line 2, col 7: warning: superuser mode: ambiguous overload for '' @ [CHR 0x27] @ ''f'' @ [CHR 0x27] @
           ''; keeping first candidate''])"
    using r[OF small, of True overloads_example "[''line 1, col 1: warning: earlier'']" "''f''" I32 "(2, 7)"]
    by (simp add: overloads_example_def choose_overload_def e d)
  have c5: "resolveOverload False overloads_example [] ''f'' [Str] (1, 1) = Inr (None, [])"
    using r[OF small, of False overloads_example "[]" "''f''" Str "(1, 1)"]
    by (simp add: overloads_example_def choose_overload_def e)
  have c6: "callGeneral False (\<lambda>n. None) overloads_example (\<lambda>e. False) [] ''f'' [(F32, (1, 3))] (1, 1) =
     Inr (''__ls_ovl_f_2'', F32, [])"
    using c2 by (simp add: callGeneral_def canonicalSuperuserCallName_def can_def)
  from small c1 c2 c3 c4 c5 c6 show ?thesis by simp
qed

section \<open>Properties of entry selection\<close>

lemma script_ne_main: "kScriptEntryName \<noteq> ''main''"
  by (simp add: kScriptEntryName_def)

text \<open>What the scan has collected when it ends, in terms of the functions it looked at.\<close>

lemma entryScan_char:
  "mainEntry (entryScan fs sc) =
     (case rev (filter (\<lambda>f. fn_n f = ''main'') (entry_candidates fs)) of [] \<Rightarrow> mainEntry sc | f # x \<Rightarrow> Some f) \<and>
   scriptEntry (entryScan fs sc) =
     (case rev (filter (\<lambda>f. fn_n f = kScriptEntryName) (entry_candidates fs)) of [] \<Rightarrow> scriptEntry sc | f # x \<Rightarrow> Some f) \<and>
   zeroArgCount (entryScan fs sc) =
     zeroArgCount sc + int (length (filter (\<lambda>f. fn_p f = []) (entry_candidates fs))) \<and>
   singleZeroArg (entryScan fs sc) =
     (case singleZeroArg sc of
        Some g \<Rightarrow> Some g
      | None \<Rightarrow> (case filter (\<lambda>f. fn_p f = []) (entry_candidates fs) of [] \<Rightarrow> None | f # x \<Rightarrow> Some f))"
proof (induction fs arbitrary: sc)
  case Nil
  then show ?case by (simp add: entry_candidates_def split: option.splits)
next
  case (Cons f fs)
  show ?case
    by (simp add: Cons.IH entry_candidates_def Let_def script_ne_main script_ne_main[symmetric]
             split: option.splits list.splits)
qed

lemma selectEntry_order:
  "(let cands = entry_candidates fs;
        scripts = filter (\<lambda>f. fn_n f = kScriptEntryName) cands;
        mains = filter (\<lambda>f. fn_n f = ''main'') cands;
        zeros = filter (\<lambda>f. fn_p f = []) cands
    in selectEntry fs =
        (if scripts \<noteq> [] then (Some (last scripts), [])
         else if mains \<noteq> [] then (Some (last mains), [])
         else case zeros of
                [] \<Rightarrow> (None, no_entry_message)
              | [f] \<Rightarrow> (Some f, [])
              | f # g # x \<Rightarrow> (None, ambiguous_entry_message)))"
proof -
  note c = entryScan_char[of fs "\<lparr>mainEntry = None, scriptEntry = None, singleZeroArg = None, zeroArgCount = 0\<rparr>"]
  have l: "\<And>xs :: Fn list. xs \<noteq> [] \<Longrightarrow> (case rev xs of [] \<Rightarrow> None | f # x \<Rightarrow> Some f) = Some (last xs)"
    by (simp add: last_rev[symmetric] hd_rev split: list.splits)
  show ?thesis
    using c l
    by (auto simp: selectEntry_def Let_def split: list.splits)
qed

lemma entry_messages_differ: "no_entry_message \<noteq> ambiguous_entry_message"
  by (simp add: no_entry_message_def ambiguous_entry_message_def)

lemma emitEntryWrapper_return:
  "fn_p entry = [] \<Longrightarrow>
   emitEntryWrapper False flags entry =
     Inr ([''int main(void) {''] @ map (\<lambda>flagFn. ''  '' @ flagFn @ ''();'') flags @
          (if fn_ret entry = Void then [''  __linescript_main();'', ''  return 0;'']
           else if fn_ret entry = Str then [''  (void)__linescript_main();'', ''  return 0;'']
           else [''  return (int)__linescript_main();'']) @
          [''}''])"
  by (simp add: emitEntryWrapper_def kEntryName_def)

text \<open>
  Claim C7, as the code has it.  The scan skips \<^verbatim>\<open>extern\<close> and flag functions before it looks
  at any name, so all three choices are made among the remaining functions: the function named
  \<^verbatim>\<open>__linescript_script_main\<close> if there is one, else the function named \<^verbatim>\<open>main\<close>, else the only
  zero-argument function.  With no zero-argument function, or with several, no entry is chosen
  and the two messages differ; a build or run then fails with that message.  The \<^verbatim>\<open>int main\<close>
  wrapper of an entry without parameters ends with \<^verbatim>\<open>return 0;\<close> when the entry returns
  \<^verbatim>\<open>void\<close> or \<^verbatim>\<open>str\<close> and otherwise consists of \<^verbatim>\<open>return (int)__linescript_main();\<close>.
\<close>

theorem selectEntry_among_non_extern_non_flag_functions:
  "(let cands = entry_candidates fs;
        scripts = filter (\<lambda>f. fn_n f = kScriptEntryName) cands;
        mains = filter (\<lambda>f. fn_n f = ''main'') cands;
        zeros = filter (\<lambda>f. fn_p f = []) cands
    in selectEntry fs =
        (if scripts \<noteq> [] then (Some (last scripts), [])
         else if mains \<noteq> [] then (Some (last mains), [])
         else case zeros of
                [] \<Rightarrow> (None, no_entry_message)
              | [f] \<Rightarrow> (Some f, [])
              | f # g # x \<Rightarrow> (None, ambiguous_entry_message))) \<and>
   no_entry_message \<noteq> ambiguous_entry_message \<and>
   (fst (selectEntry fs) = None \<longrightarrow> requireEntry True run fs = Inl (snd (selectEntry fs))) \<and>
   (fn_p entry = [] \<longrightarrow>
      emitEntryWrapper False flags entry =
        Inr ([''int main(void) {''] @ map (\<lambda>flagFn. ''  '' @ flagFn @ ''();'') flags @
             (if fn_ret entry = Void then [''  __linescript_main();'', ''  return 0;'']
              else if fn_ret entry = Str then [''  (void)__linescript_main();'', ''  return 0;'']
              else [''  return (int)__linescript_main();'']) @
             [''}'']))"
  using selectEntry_order[of fs] entry_messages_differ emitEntryWrapper_return[of entry flags]
  by (simp add: requireEntry_def)

theorem selectEntry_among_non_extern_non_flag_functions_witness:
  "selectEntry [mkFn ''helper'' [] Void False False, mkFn ''main'' [] I64 False False,
                mkFn kScriptEntryName [] Void False False]
     = (Some (mkFn kScriptEntryName [] Void False False), []) \<and>
   selectEntry [mkFn ''helper'' [] Void False False, mkFn ''main'' [] I64 False False]
     = (Some (mkFn ''main'' [] I64 False False), []) \<and>
   selectEntry [mkFn ''helper'' [] Void False False, mkFn ''f'' [\<lparr>param_n = ''x'', param_t = I64\<rparr>] I64 False False]
     = (Some (mkFn ''helper'' [] Void False False), []) \<and>
   selectEntry [mkFn ''a'' [] Void False False, mkFn ''b'' [] Void False False]
     = (None, ambiguous_entry_message) \<and>
   selectEntry [mkFn ''f'' [\<lparr>param_n = ''x'', param_t = I64\<rparr>] I64 False False]
     = (None, no_entry_message) \<and>
   requireEntry True False [mkFn ''f'' [\<lparr>param_n = ''x'', param_t = I64\<rparr>] I64 False False]
     = Inl no_entry_message \<and>
   emitEntryWrapper False [] (mkFn ''main'' [] I64 False False)
     = Inr [''int main(void) {'', ''  return (int)__linescript_main();'', ''}''] \<and>
   emitEntryWrapper False [] (mkFn kScriptEntryName [] Void False False)
     = Inr [''int main(void) {'', ''  __linescript_main();'', ''  return 0;'', ''}'']"
proof -
  note t = selectEntry_among_non_extern_non_flag_functions
  have n: "kScriptEntryName \<noteq> ''helper''" "kScriptEntryName \<noteq> ''main''" "kScriptEntryName \<noteq> ''f''"
    "kScriptEntryName \<noteq> ''a''" "kScriptEntryName \<noteq> ''b''"
    by (simp_all add: kScriptEntryName_def)
  have 1: "selectEntry [mkFn ''helper'' [] Void False False, mkFn ''main'' [] I64 False False,
                mkFn kScriptEntryName [] Void False False]
     = (Some (mkFn kScriptEntryName [] Void False False), [])"
    using t[of "[mkFn ''helper'' [] Void False False, mkFn ''main'' [] I64 False False,
                mkFn kScriptEntryName [] Void False False]"] n n[symmetric]
    by (simp add: entry_candidates_def mkFn_def)
  have 2: "selectEntry [mkFn ''helper'' [] Void False False, mkFn ''main'' [] I64 False False]
     = (Some (mkFn ''main'' [] I64 False False), [])"
    using t[of "[mkFn ''helper'' [] Void False False, mkFn ''main'' [] I64 False False]"] n n[symmetric]
    by (simp add: entry_candidates_def mkFn_def)
  have 3: "selectEntry [mkFn ''helper'' [] Void False False, mkFn ''f'' [\<lparr>param_n = ''x'', param_t = I64\<rparr>] I64 False False]
     = (Some (mkFn ''helper'' [] Void False False), [])"
    using t[of "[mkFn ''helper'' [] Void False False, mkFn ''f'' [\<lparr>param_n = ''x'', param_t = I64\<rparr>] I64 False False]"]
      n n[symmetric]
    by (simp add: entry_candidates_def mkFn_def)
  have 4: "selectEntry [mkFn ''a'' [] Void False False, mkFn ''b'' [] Void False False]
     = (None, ambiguous_entry_message)"
    using t[of "[mkFn ''a'' [] Void False False, mkFn ''b'' [] Void False False]"] n n[symmetric]
    by (simp add: entry_candidates_def mkFn_def)
  have 5: "selectEntry [mkFn ''f'' [\<lparr>param_n = ''x'', param_t = I64\<rparr>] I64 False False]
     = (None, no_entry_message)"
    using t[of "[mkFn ''f'' [\<lparr>param_n = ''x'', param_t = I64\<rparr>] I64 False False]"] n n[symmetric]
    by (simp add: entry_candidates_def mkFn_def)
  have 6: "requireEntry True False [mkFn ''f'' [\<lparr>param_n = ''x'', param_t = I64\<rparr>] I64 False False]
     = Inl no_entry_message"
    using 5 t[of "[mkFn ''f'' [\<lparr>param_n = ''x'', param_t = I64\<rparr>] I64 False False]" False]
    by simp
  have 7: "emitEntryWrapper False [] (mkFn ''main'' [] I64 False False)
     = Inr [''int main(void) {'', ''  return (int)__linescript_main();'', ''}'']"
    using t[of _ _ "mkFn ''main'' [] I64 False False" "[]"] by (simp add: mkFn_def)
  have 8: "emitEntryWrapper False [] (mkFn kScriptEntryName [] Void False False)
     = Inr [''int main(void) {'', ''  __linescript_main();'', ''  return 0;'', ''}'']"
    using t[of _ _ "mkFn kScriptEntryName [] Void False False" "[]"] by (simp add: mkFn_def)
  from 1 2 3 4 5 6 7 8 show ?thesis by blast
qed

text \<open>
  The claim as it is worded (``else a function named \<^verbatim>\<open>main\<close>'') fails on
  \<^verbatim>\<open>extern fn main() -> i64\<close> next to one ordinary zero-argument function: a function named
  \<^verbatim>\<open>main\<close> is present and there is no script entry, yet the entry is the other function.
\<close>

theorem selectEntry_skips_an_extern_main:
  "(\<exists>f \<in> set [mkFn ''main'' [] I64 True False, mkFn ''start'' [] Void False False]. fn_n f = ''main'') \<and>
   \<not> (\<exists>f \<in> set [mkFn ''main'' [] I64 True False, mkFn ''start'' [] Void False False]. fn_n f = kScriptEntryName) \<and>
   selectEntry [mkFn ''main'' [] I64 True False, mkFn ''start'' [] Void False False]
     = (Some (mkFn ''start'' [] Void False False), [])"
  by (simp add: selectEntry_def mkFn_def kScriptEntryName_def)

section \<open>Properties of the build-configuration hash\<close>


lemma fnv_prime_inverse: "(1099511628211 :: 64 word) * 14886173955864302971 = 1"
  by simp

lemma fnv_mult_inj: "a * (1099511628211 :: 64 word) = b * 1099511628211 \<Longrightarrow> a = b"
proof -
  assume "a * (1099511628211 :: 64 word) = b * 1099511628211"
  then have "a * (1099511628211 * 14886173955864302971) = b * (1099511628211 * 14886173955864302971)"
    by (simp only: mult.assoc[symmetric])
  then show "a = b" by (simp only: fnv_prime_inverse mult_1_right)
qed

lemma xor_right_inj:
  assumes "(a :: 64 word) XOR k = b XOR k"
  shows "a = b"
proof -
  from assms have "(a XOR k) XOR k = (b XOR k) XOR k" by simp
  then show ?thesis by (simp add: xor.assoc)
qed


lemma fnv1a64_inj_seed: "fnv1a64 s h = fnv1a64 s h' \<Longrightarrow> h = h'"
proof (induction s arbitrary: h h')
  case Nil
  then show ?case by (simp add: fnv1a64_def)
next
  case (Cons c s)
  from Cons.prems have "fnv1a64 s ((h XOR of_char c) * 1099511628211) = fnv1a64 s ((h' XOR of_char c) * 1099511628211)"
    by (simp add: fnv1a64_def)
  then have "(h XOR of_char c) * (1099511628211 :: 64 word) = (h' XOR of_char c) * 1099511628211"
    by (rule Cons.IH)
  then show ?case by (blast dest: fnv_mult_inj xor_right_inj)
qed





lemma fnv1a64_seed_neq: "h \<noteq> h' \<Longrightarrow> fnv1a64 s h \<noteq> fnv1a64 s h'"
  using fnv1a64_inj_seed by blast
























lemma config_off:
  "\<not> (incremental \<and> \<not> noCache \<and> inputs \<noteq> []) \<Longrightarrow>
   incrementalConfigHash incremental noCache inputs cc backend maxSpeed passes target sysroot linker = []"
  by (auto simp add: incrementalConfigHash_def)







section \<open>Properties of the type checker on statements\<close>

lemma andThen_Inr_iff: "andThen m f = Inr r \<longleftrightarrow> (\<exists>x. m = Inr x \<and> f x = Inr r)"
  by (cases m) (simp_all add: andThen_def)

lemma andThen_Inl: "andThen (Inl e) f = Inl e"
  by (simp add: andThen_def)

lemma andThen_Inr: "andThen (Inr x) f = f x"
  by (simp add: andThen_def)

lemma not_Inr_is_Inl: "(\<forall>r. m \<noteq> Inr r) \<Longrightarrow> \<exists>e. m = Inl e"
  by (cases m) auto

lemma req_strict: "\<not> ok \<Longrightarrow> req False ok s m w = Inl (CompileError s m)"
  by (simp add: req_def)

lemma stmt_SLet_redeclared:
  "l n \<noteq> None \<Longrightarrow>
   stmt ex False (SLet n decl isConst isOwned fr v s) l ret d w =
     Inl (CompileError s (''variable '' @ quoted n @ '' already declared''))"
  by (simp add: req_strict andThen_Inl)

lemma stmt_SLet_locals:
  "stmt ex su (SLet n decl isConst isOwned fr v s) l ret d w = Inr (x', l', w') \<Longrightarrow> \<exists>lo. l' = l(n \<mapsto> lo)"
  by (auto simp add: andThen_Inr_iff Let_def split: if_splits)

lemma stmt_SLet_scope:
  assumes "stmt ex su (SLet n decl isConst isOwned fr v s) l ret d w = Inr (x', l', w')"
  shows "(\<lambda>y. l' y \<noteq> None) = (\<lambda>y. l y \<noteq> None)(n := True)"
proof -
  from stmt_SLet_locals[OF assms] obtain lo where "l' = l(n \<mapsto> lo)" by blast
  then show ?thesis by (simp add: fun_eq_iff)
qed

lemma stmt_SAssign_locals:
  "stmt ex False (SAssign n v s) l ret d w = Inr (x', l', w') \<Longrightarrow> \<exists>lo. l n = Some lo \<and> l' = l(n \<mapsto> lo)"
  by (auto simp add: andThen_Inr_iff Let_def req_def split: if_splits)

lemma stmt_SAssign_scope:
  assumes "stmt ex False (SAssign n v s) l ret d w = Inr (x', l', w')"
  shows "(\<lambda>y. l' y \<noteq> None) = (\<lambda>y. l y \<noteq> None)"
proof -
  from stmt_SAssign_locals[OF assms] obtain lo where "l n = Some lo" "l' = l(n \<mapsto> lo)" by blast
  then show ?thesis by (auto simp add: fun_eq_iff)
qed

lemma stmt_SExpr_scope:
  "stmt ex su (SExpr e s) l ret d w = Inr (x', l', w') \<Longrightarrow> l' = l"
  by (auto simp add: andThen_Inr_iff)

lemma stmt_SRet_scope:
  "stmt ex su (SRet has v s) l ret d w = Inr (x', l', w') \<Longrightarrow> l' = l"
  by (auto simp add: andThen_Inr_iff split: if_splits option.splits)

lemma stmt_SIf_scope:
  "stmt ex su (SIf c t e s) l ret d w = Inr (x', l', w') \<Longrightarrow> l' = l"
  by (auto simp add: andThen_Inr_iff)

lemma stmt_SWhile_scope:
  "stmt ex su (SWhile c b s) l ret d w = Inr (x', l', w') \<Longrightarrow> l' = l"
  by (auto simp add: andThen_Inr_iff)

lemma stmt_SFor_scope:
  "stmt ex su (SFor n start stop step par b s) l ret d w = Inr (x', l', w') \<Longrightarrow> l' = l"
  by (auto simp add: andThen_Inr_iff)

lemma stmt_SFormatBlock_scope:
  "stmt ex su (SFormatBlock endArg b s) l ret d w = Inr (x', l', w') \<Longrightarrow> l' = l"
  by (auto simp add: andThen_Inr_iff)

lemma stmt_SBreak_scope:
  "stmt ex su (SBreak s) l ret d w = Inr (x', l', w') \<Longrightarrow> l' = l"
  by (auto simp add: andThen_Inr_iff)

lemma stmt_SContinue_scope:
  "stmt ex su (SContinue s) l ret d w = Inr (x', l', w') \<Longrightarrow> l' = l"
  by (auto simp add: andThen_Inr_iff)


lemma block_Cons_fails:
  assumes "(\<exists>e. stmt ex su x l ret d w = Inl e) \<or>
           (\<exists>x' l' w'. stmt ex su x l ret d w = Inr (x', l', w') \<and> (\<exists>e. block ex su xs l' ret d w' = Inl e))"
  shows "\<exists>e. block ex su (x # xs) l ret d w = Inl e"
  using assms by (auto simp add: andThen_Inl andThen_Inr)

lemma stmt_cases: "(\<exists>e. stmt ex su x l ret d w = Inl e) \<or> (\<exists>x' l' w'. stmt ex su x l ret d w = Inr (x', l', w'))"
  by (cases "stmt ex su x l ret d w") auto

lemma stmt_SIf_blocks:
  "stmt ex su (SIf c t e s) l ret d w = Inr r \<Longrightarrow>
   (\<exists>w2 r2. block ex su t l ret d w2 = Inr r2) \<and> (\<exists>w3 r3. block ex su e l ret d w3 = Inr r3)"
  by (auto simp add: andThen_Inr_iff)

lemma stmt_SWhile_blocks:
  "stmt ex su (SWhile c b s) l ret d w = Inr r \<Longrightarrow> \<exists>w2 r2. block ex su b l ret (d + 1) w2 = Inr r2"
  by (auto simp add: andThen_Inr_iff)

lemma stmt_SFor_blocks:
  "stmt ex su (SFor n start stop step par b s) l ret d w = Inr r \<Longrightarrow>
   \<exists>w2 r2 lo. block ex su b (l(n \<mapsto> lo)) ret (d + 1) w2 = Inr r2"
  by (auto simp add: andThen_Inr_iff)

lemma stmt_SFormatBlock_blocks:
  "stmt ex su (SFormatBlock endArg b s) l ret d w = Inr r \<Longrightarrow> \<exists>w2 r2. block ex su b l ret d w2 = Inr r2"
  by (auto simp add: andThen_Inr_iff)

lemma scope_upd: "(\<lambda>x. (l(n \<mapsto> lo)) x \<noteq> None) = (\<lambda>x. l x \<noteq> None)(n := True)"
  by (simp add: fun_eq_iff)

lemma block_redeclares_fails:
  "(\<lambda>x. l x \<noteq> None) = scope \<Longrightarrow> redeclares scope b \<Longrightarrow> \<exists>e. block ex False b l ret d w = Inl e"
proof (induction scope b arbitrary: l ret d w rule: redeclares.induct)
  case (1 scope)
  then show ?case by simp
next
  case (2 scope n decl isConst isOwned fr v s rest)
  show ?case
  proof (cases "l n \<noteq> None")
    case True
    from True stmt_SLet_redeclared[of l n ex decl isConst isOwned fr v s ret d w]
    have "\<exists>e. stmt ex False (SLet n decl isConst isOwned fr v s) l ret d w = Inl e" by blast
    then show ?thesis by (intro block_Cons_fails disjI1)
  next
    case False
    with 2 have r: "redeclares (scope(n := True)) rest" by auto
    from stmt_cases[of ex False "SLet n decl isConst isOwned fr v s" l ret d w]
    show ?thesis
    proof
      assume "\<exists>e. stmt ex False (SLet n decl isConst isOwned fr v s) l ret d w = Inl e"
      then show ?thesis by (intro block_Cons_fails disjI1)
    next
      assume "\<exists>x' l' w'. stmt ex False (SLet n decl isConst isOwned fr v s) l ret d w = Inr (x', l', w')"
      then obtain x' l' w' where st: "stmt ex False (SLet n decl isConst isOwned fr v s) l ret d w = Inr (x', l', w')"
        by blast
      from stmt_SLet_scope[OF st] 2(2) have "(\<lambda>y. l' y \<noteq> None) = scope(n := True)" by simp
      from 2(1)[OF this r] obtain e where "block ex False rest l' ret d w' = Inl e" by blast
      with st show ?thesis by (intro block_Cons_fails disjI2) blast
    qed
  qed
next
  case (3 scope c t e s rest)
  from stmt_cases[of ex False "SIf c t e s" l ret d w]
  show ?case
  proof
    assume "\<exists>e'. stmt ex False (SIf c t e s) l ret d w = Inl e'"
    then show ?thesis by (intro block_Cons_fails disjI1)
  next
    assume "\<exists>x' l' w'. stmt ex False (SIf c t e s) l ret d w = Inr (x', l', w')"
    then obtain x' l' w' where st: "stmt ex False (SIf c t e s) l ret d w = Inr (x', l', w')" by blast
    have l': "l' = l" using stmt_SIf_scope[OF st] .
    from stmt_SIf_blocks[OF st] obtain w2 r2 w3 r3 where
      bt: "block ex False t l ret d w2 = Inr r2" and be: "block ex False e l ret d w3 = Inr r3" by blast
    have "\<not> redeclares scope t" using 3(1)[OF 3(4), of ret d w2] bt by auto
    moreover have "\<not> redeclares scope e" using 3(2)[OF 3(4), of ret d w3] be by auto
    ultimately have "redeclares scope rest" using 3(5) by simp
    from 3(3)[OF 3(4) this] obtain e' where "block ex False rest l ret d w' = Inl e'" by blast
    with st l' show ?thesis by (intro block_Cons_fails disjI2) blast
  qed
next
  case (4 scope c b s rest)
  from stmt_cases[of ex False "SWhile c b s" l ret d w]
  show ?case
  proof
    assume "\<exists>e'. stmt ex False (SWhile c b s) l ret d w = Inl e'"
    then show ?thesis by (intro block_Cons_fails disjI1)
  next
    assume "\<exists>x' l' w'. stmt ex False (SWhile c b s) l ret d w = Inr (x', l', w')"
    then obtain x' l' w' where st: "stmt ex False (SWhile c b s) l ret d w = Inr (x', l', w')" by blast
    have l': "l' = l" using stmt_SWhile_scope[OF st] .
    from stmt_SWhile_blocks[OF st] obtain w2 r2 where
      bb: "block ex False b l ret (d + 1) w2 = Inr r2" by blast
    have "\<not> redeclares scope b" using 4(1)[OF 4(3), of ret "d + 1" w2] bb by auto
    then have "redeclares scope rest" using 4(4) by simp
    from 4(2)[OF 4(3) this] obtain e' where "block ex False rest l ret d w' = Inl e'" by blast
    with st l' show ?thesis by (intro block_Cons_fails disjI2) blast
  qed
next
  case (5 scope n start stop step par b s rest)
  from stmt_cases[of ex False "SFor n start stop step par b s" l ret d w]
  show ?case
  proof
    assume "\<exists>e'. stmt ex False (SFor n start stop step par b s) l ret d w = Inl e'"
    then show ?thesis by (intro block_Cons_fails disjI1)
  next
    assume "\<exists>x' l' w'. stmt ex False (SFor n start stop step par b s) l ret d w = Inr (x', l', w')"
    then obtain x' l' w' where st: "stmt ex False (SFor n start stop step par b s) l ret d w = Inr (x', l', w')"
      by blast
    have l': "l' = l" using stmt_SFor_scope[OF st] .
    from stmt_SFor_blocks[OF st] obtain w2 r2 lo where
      bb: "block ex False b (l(n \<mapsto> lo)) ret (d + 1) w2 = Inr r2" by blast
    have sc: "(\<lambda>x. (l(n \<mapsto> lo)) x \<noteq> None) = scope(n := True)"
      by (simp only: scope_upd 5(3))
    have "\<not> redeclares (scope(n := True)) b"
    proof
      assume "redeclares (scope(n := True)) b"
      from 5(1)[OF sc this, of ret "d + 1" w2] obtain e' where "block ex False b (l(n \<mapsto> lo)) ret (d + 1) w2 = Inl e'"
        by blast
      with bb show False by simp
    qed
    then have "redeclares scope rest" using 5(4) by simp
    from 5(2)[OF 5(3) this] obtain e' where "block ex False rest l ret d w' = Inl e'" by blast
    with st l' show ?thesis by (intro block_Cons_fails disjI2) blast
  qed
next
  case (6 scope endArg b s rest)
  from stmt_cases[of ex False "SFormatBlock endArg b s" l ret d w]
  show ?case
  proof
    assume "\<exists>e'. stmt ex False (SFormatBlock endArg b s) l ret d w = Inl e'"
    then show ?thesis by (intro block_Cons_fails disjI1)
  next
    assume "\<exists>x' l' w'. stmt ex False (SFormatBlock endArg b s) l ret d w = Inr (x', l', w')"
    then obtain x' l' w' where st: "stmt ex False (SFormatBlock endArg b s) l ret d w = Inr (x', l', w')" by blast
    have l': "l' = l" using stmt_SFormatBlock_scope[OF st] .
    from stmt_SFormatBlock_blocks[OF st] obtain w2 r2 where
      bb: "block ex False b l ret d w2 = Inr r2" by blast
    have "\<not> redeclares scope b" using 6(1)[OF 6(3), of ret d w2] bb by auto
    then have "redeclares scope rest" using 6(4) by simp
    from 6(2)[OF 6(3) this] obtain e' where "block ex False rest l ret d w' = Inl e'" by blast
    with st l' show ?thesis by (intro block_Cons_fails disjI2) blast
  qed
next
  case (7 scope n v s rest)
  from stmt_cases[of ex False "SAssign n v s" l ret d w]
  show ?case
  proof
    assume "\<exists>e'. stmt ex False (SAssign n v s) l ret d w = Inl e'"
    then show ?thesis by (intro block_Cons_fails disjI1)
  next
    assume "\<exists>x' l' w'. stmt ex False (SAssign n v s) l ret d w = Inr (x', l', w')"
    then obtain x' l' w' where st: "stmt ex False (SAssign n v s) l ret d w = Inr (x', l', w')" by blast
    from stmt_SAssign_scope[OF st] 7(2) have "(\<lambda>y. l' y \<noteq> None) = scope" by simp
    moreover have "redeclares scope rest" using 7(3) by simp
    ultimately have "\<exists>e'. block ex False rest l' ret d w' = Inl e'" by (rule 7(1))
    then obtain e' where "block ex False rest l' ret d w' = Inl e'" by blast
    with st show ?thesis by (intro block_Cons_fails disjI2) blast
  qed
next
  case (8 scope e s rest)
  from stmt_cases[of ex False "SExpr e s" l ret d w]
  show ?case
  proof
    assume "\<exists>e'. stmt ex False (SExpr e s) l ret d w = Inl e'"
    then show ?thesis by (intro block_Cons_fails disjI1)
  next
    assume "\<exists>x' l' w'. stmt ex False (SExpr e s) l ret d w = Inr (x', l', w')"
    then obtain x' l' w' where st: "stmt ex False (SExpr e s) l ret d w = Inr (x', l', w')" by blast
    have l': "l' = l" using stmt_SExpr_scope[OF st] .
    have "redeclares scope rest" using 8(3) by simp
    from 8(1)[OF 8(2) this] obtain e' where "block ex False rest l ret d w' = Inl e'" by blast
    with st l' show ?thesis by (intro block_Cons_fails disjI2) blast
  qed
next
  case (9 scope has v s rest)
  from stmt_cases[of ex False "SRet has v s" l ret d w]
  show ?case
  proof
    assume "\<exists>e'. stmt ex False (SRet has v s) l ret d w = Inl e'"
    then show ?thesis by (intro block_Cons_fails disjI1)
  next
    assume "\<exists>x' l' w'. stmt ex False (SRet has v s) l ret d w = Inr (x', l', w')"
    then obtain x' l' w' where st: "stmt ex False (SRet has v s) l ret d w = Inr (x', l', w')" by blast
    have l': "l' = l" using stmt_SRet_scope[OF st] .
    have "redeclares scope rest" using 9(3) by simp
    from 9(1)[OF 9(2) this] obtain e' where "block ex False rest l ret d w' = Inl e'" by blast
    with st l' show ?thesis by (intro block_Cons_fails disjI2) blast
  qed
next
  case (10 scope s rest)
  from stmt_cases[of ex False "SBreak s" l ret d w]
  show ?case
  proof
    assume "\<exists>e'. stmt ex False (SBreak s) l ret d w = Inl e'"
    then show ?thesis by (intro block_Cons_fails disjI1)
  next
    assume "\<exists>x' l' w'. stmt ex False (SBreak s) l ret d w = Inr (x', l', w')"
    then obtain x' l' w' where st: "stmt ex False (SBreak s) l ret d w = Inr (x', l', w')" by blast
    have l': "l' = l" using stmt_SBreak_scope[OF st] .
    have "redeclares scope rest" using 10(3) by simp
    from 10(1)[OF 10(2) this] obtain e' where "block ex False rest l ret d w' = Inl e'" by blast
    with st l' show ?thesis by (intro block_Cons_fails disjI2) blast
  qed
next
  case (11 scope s rest)
  from stmt_cases[of ex False "SContinue s" l ret d w]
  show ?case
  proof
    assume "\<exists>e'. stmt ex False (SContinue s) l ret d w = Inl e'"
    then show ?thesis by (intro block_Cons_fails disjI1)
  next
    assume "\<exists>x' l' w'. stmt ex False (SContinue s) l ret d w = Inr (x', l', w')"
    then obtain x' l' w' where st: "stmt ex False (SContinue s) l ret d w = Inr (x', l', w')" by blast
    have l': "l' = l" using stmt_SContinue_scope[OF st] .
    have "redeclares scope rest" using 11(3) by simp
    from 11(1)[OF 11(2) this] obtain e' where "block ex False rest l ret d w' = Inl e'" by blast
    with st l' show ?thesis by (intro block_Cons_fails disjI2) blast
  qed
qed


lemma paramsLoop_scope:
  "paramsLoop False s ps l w = Inr (l', w') \<Longrightarrow>
   (\<lambda>x. l' x \<noteq> None) = (\<lambda>x. l x \<noteq> None \<or> x \<in> set (map param_n ps))"
proof (induction ps arbitrary: l w)
  case Nil
  then show ?case by simp
next
  case (Cons p ps)
  from Cons.prems obtain w1 where
    "paramsLoop False s ps
       (l(param_n p \<mapsto> \<lparr>local_t = param_t p, local_isConst = False, local_isOwned = False, local_ownedFreeFn = []\<rparr>))
       w1 = Inr (l', w')"
    by (auto simp add: andThen_Inr_iff split: if_splits)
  from Cons.IH[OF this] show ?case by (auto simp add: fun_eq_iff)
qed

lemma fn_redeclares_fails:
  assumes "redeclares (\<lambda>x. x \<in> set (map param_n (fn_p f))) (fn_b f)"
  shows "\<exists>e. fn ex False f w = Inl e"
proof (cases "paramsLoop False (fn_s f) (fn_p f) Map.empty w")
  case (Inl e)
  then show ?thesis by (simp add: fn_def andThen_Inl)
next
  case (Inr r)
  obtain l' w' where r: "r = (l', w')" by (cases r)
  from paramsLoop_scope[OF Inr[unfolded r]]
  have "(\<lambda>x. l' x \<noteq> None) = (\<lambda>x. x \<in> set (map param_n (fn_p f)))" by simp
  from block_redeclares_fails[OF this assms] obtain e where "block ex False (fn_b f) l' (fn_ret f) 0 w' = Inl e"
    by blast
  with Inr r show ?thesis by (simp add: fn_def andThen_Inr)
qed

lemma stmt_SLet_superuser:
  assumes "l n \<noteq> None"
    and "ex l v (w @ [''line '' @ to_string (int (fst s)) @ '', col '' @ to_string (int (snd s)) @
                      '': warning: superuser mode: variable '' @ [CHR 0x27] @ n @ [CHR 0x27] @
                      '' already declared (continuing)'']) = Inr (v', vt, wa)"
    and "can vt (case decl of Some t \<Rightarrow> t | None \<Rightarrow> vt)"
  shows "stmt ex True (SLet n decl isConst False fr v s) l ret d w =
           Inr (SLet n decl isConst False fr v' s,
                l(n \<mapsto> \<lparr>local_t = (case decl of Some t \<Rightarrow> t | None \<Rightarrow> vt), local_isConst = isConst,
                          local_isOwned = False, local_ownedFreeFn = fr\<rparr>),
                wa)"
proof -
  from assms(1) obtain lo where lo: "l n = Some lo" by blast
  show ?thesis using assms(2,3) by (simp add: lo req_def warn_def quoted_def andThen_def Let_def)
qed

lemma stmt_compound_scope:
  assumes "\<forall>n decl isConst isOwned fr v s. x \<noteq> SLet n decl isConst isOwned fr v s"
    and "\<forall>n v s. x \<noteq> SAssign n v s"
    and "stmt ex su x l ret d w = Inr (x', l', w')"
  shows "l' = l"
proof (cases x)
  case (SLet n decl isConst isOwned fr v s)
  with assms(1) show ?thesis by blast
next
  case (SAssign n v s)
  with assms(2) show ?thesis by blast
next
  case (SExpr e s)
  with assms(3) show ?thesis by (blast dest: stmt_SExpr_scope)
next
  case (SRet has v s)
  with assms(3) show ?thesis by (blast dest: stmt_SRet_scope)
next
  case (SIf c t e s)
  with assms(3) show ?thesis by (blast dest: stmt_SIf_scope)
next
  case (SWhile c b s)
  with assms(3) show ?thesis by (blast dest: stmt_SWhile_scope)
next
  case (SFor n start stop step par b s)
  with assms(3) show ?thesis by (blast dest: stmt_SFor_scope)
next
  case (SFormatBlock endArg b s)
  with assms(3) show ?thesis by (blast dest: stmt_SFormatBlock_scope)
next
  case (SBreak s)
  with assms(3) show ?thesis by (blast dest: stmt_SBreak_scope)
next
  case (SContinue s)
  with assms(3) show ?thesis by (blast dest: stmt_SContinue_scope)
qed

text \<open>
  Claim C10, as the code has it.  Outside superuser mode a \<^verbatim>\<open>declare\<close> of a name that is already
  among the locals is the compile error \<^verbatim>\<open>variable 'n' already declared\<close>; a block in which such
  a \<^verbatim>\<open>declare\<close> stands anywhere, also inside nested \<^verbatim>\<open>if\<close>, \<^verbatim>\<open>while\<close>, \<^verbatim>\<open>for\<close> and format
  blocks, is rejected, and so is a function whose body redeclares a parameter.  Every statement
  other than a \<^verbatim>\<open>declare\<close> or an assignment leaves the locals as they were, so what a nested block
  declares is gone after it.  In superuser mode the redeclaration is accepted: the warning
  \<^verbatim>\<open>superuser mode: variable 'n' already declared (continuing)\<close> is added and the new
  declaration replaces the old one.
\<close>

theorem declare_of_a_visible_name_is_rejected_outside_superuser_mode:
  "(l n \<noteq> None \<longrightarrow>
      stmt ex False (SLet n decl isConst isOwned fr v s) l ret d w =
        Inl (CompileError s (''variable '' @ [CHR 0x27] @ n @ [CHR 0x27] @ '' already declared''))) \<and>
   (redeclares (\<lambda>x. l x \<noteq> None) b \<longrightarrow> (\<exists>e. block ex False b l ret d w = Inl e)) \<and>
   (redeclares (\<lambda>x. x \<in> set (map param_n (fn_p f))) (fn_b f) \<longrightarrow> (\<exists>e. fn ex False f w = Inl e)) \<and>
   ((\<forall>n decl isConst isOwned fr v s. x \<noteq> SLet n decl isConst isOwned fr v s) \<and>
    (\<forall>n v s. x \<noteq> SAssign n v s) \<and>
    stmt ex su x l ret d w = Inr (x', l', w') \<longrightarrow> l' = l) \<and>
   (l n \<noteq> None \<and>
    ex l v (w @ [''line '' @ to_string (int (fst s)) @ '', col '' @ to_string (int (snd s)) @
                 '': warning: superuser mode: variable '' @ [CHR 0x27] @ n @ [CHR 0x27] @
                 '' already declared (continuing)'']) = Inr (v', vt, wa) \<and>
    can vt (case decl of Some t \<Rightarrow> t | None \<Rightarrow> vt) \<longrightarrow>
      stmt ex True (SLet n decl isConst False fr v s) l ret d w =
        Inr (SLet n decl isConst False fr v' s,
             l(n \<mapsto> \<lparr>local_t = (case decl of Some t \<Rightarrow> t | None \<Rightarrow> vt), local_isConst = isConst,
                       local_isOwned = False, local_ownedFreeFn = fr\<rparr>),
             wa))"
proof -
  have 1: "l n \<noteq> None \<longrightarrow>
      stmt ex False (SLet n decl isConst isOwned fr v s) l ret d w =
        Inl (CompileError s (''variable '' @ [CHR 0x27] @ n @ [CHR 0x27] @ '' already declared''))"
    using stmt_SLet_redeclared[of l n ex decl isConst isOwned fr v s ret d w] by (simp add: quoted_def)
  have 2: "redeclares (\<lambda>x. l x \<noteq> None) b \<longrightarrow> (\<exists>e. block ex False b l ret d w = Inl e)"
    using block_redeclares_fails[OF refl, of l b ex ret d w] by blast
  have 3: "redeclares (\<lambda>x. x \<in> set (map param_n (fn_p f))) (fn_b f) \<longrightarrow> (\<exists>e. fn ex False f w = Inl e)"
    using fn_redeclares_fails[of f ex w] by blast
  have 4: "(\<forall>n decl isConst isOwned fr v s. x \<noteq> SLet n decl isConst isOwned fr v s) \<and>
    (\<forall>n v s. x \<noteq> SAssign n v s) \<and>
    stmt ex su x l ret d w = Inr (x', l', w') \<longrightarrow> l' = l"
    using stmt_compound_scope[of x ex su l ret d w x' l' w'] by blast
  have 5: "l n \<noteq> None \<and>
    ex l v (w @ [''line '' @ to_string (int (fst s)) @ '', col '' @ to_string (int (snd s)) @
                 '': warning: superuser mode: variable '' @ [CHR 0x27] @ n @ [CHR 0x27] @
                 '' already declared (continuing)'']) = Inr (v', vt, wa) \<and>
    can vt (case decl of Some t \<Rightarrow> t | None \<Rightarrow> vt) \<longrightarrow>
      stmt ex True (SLet n decl isConst False fr v s) l ret d w =
        Inr (SLet n decl isConst False fr v' s,
             l(n \<mapsto> \<lparr>local_t = (case decl of Some t \<Rightarrow> t | None \<Rightarrow> vt), local_isConst = isConst,
                       local_isOwned = False, local_ownedFreeFn = fr\<rparr>),
             wa)"
    using stmt_SLet_superuser[of l n ex v w s v' vt wa decl isConst fr ret d] by blast
  from 1 2 3 4 5 show ?thesis by blast
qed

lemma exprLiterals_simps:
  "exprLiterals su l (EInt i) w = Inr (EInt i, I64, w)"
  "exprLiterals su l (EBool b) w = Inr (EBool b, Bool, w)"
  "l n = Some lo \<Longrightarrow> exprLiterals su l (EVar n) w = Inr (EVar n, local_t lo, w)"
  by (simp_all add: exprLiterals_def)

theorem declare_of_a_visible_name_is_rejected_outside_superuser_mode_witness:
  "stmt (exprLiterals False) False (SLet ''a'' None False False [] (EInt 1) (2, 5)) [''a'' \<mapsto> \<lparr>local_t = I64, local_isConst = False, local_isOwned = False, local_ownedFreeFn = []\<rparr>] I64 0 [] =
     Inl (CompileError (2, 5) (''variable '' @ [CHR 0x27] @ ''a'' @ [CHR 0x27] @ '' already declared'')) \<and>
   (\<exists>e. block (exprLiterals False) False (fn_b fn_example) [''a'' \<mapsto> \<lparr>local_t = I64, local_isConst = False, local_isOwned = False, local_ownedFreeFn = []\<rparr>] I64 0 [] = Inl e) \<and>
   fn (exprLiterals False) False fn_example [] =
     Inl (CompileError (2, 5) (''variable '' @ [CHR 0x27] @ ''a'' @ [CHR 0x27] @ '' already declared'')) \<and>
   stmt (exprLiterals False) False (SIf (EBool True) [SLet ''b'' None False False [] (EInt 1) (2, 5)] [] (1, 1))
     Map.empty I64 0 [] =
     Inr (SIf (EBool True) [SLet ''b'' None False False [] (EInt 1) (2, 5)] [] (1, 1), Map.empty, []) \<and>
   block (exprLiterals False) False
     [SIf (EBool True) [SLet ''b'' None False False [] (EInt 1) (2, 5)] [] (1, 1),
      SLet ''b'' None False False [] (EInt 2) (3, 1)] Map.empty I64 0 [] =
     Inr ([SIf (EBool True) [SLet ''b'' None False False [] (EInt 1) (2, 5)] [] (1, 1),
           SLet ''b'' None False False [] (EInt 2) (3, 1)], []) \<and>
   stmt (exprLiterals True) True (SLet ''a'' None False False [] (EInt 1) (2, 5)) [''a'' \<mapsto> \<lparr>local_t = I64, local_isConst = False, local_isOwned = False, local_ownedFreeFn = []\<rparr>] I64 0 [] =
     Inr (SLet ''a'' None False False [] (EInt 1) (2, 5), [''a'' \<mapsto> \<lparr>local_t = I64, local_isConst = False, local_isOwned = False, local_ownedFreeFn = []\<rparr>, ''a'' \<mapsto> \<lparr>local_t = I64, local_isConst = False, local_isOwned = False, local_ownedFreeFn = []\<rparr>],
          [''line 2, col 5: warning: superuser mode: variable '' @ [CHR 0x27] @ ''a'' @ [CHR 0x27] @
           '' already declared (continuing)''])"
proof -
  note t = declare_of_a_visible_name_is_rejected_outside_superuser_mode
  let ?l = "[''a'' \<mapsto> \<lparr>local_t = I64, local_isConst = False, local_isOwned = False, local_ownedFreeFn = []\<rparr>]"
  have d: "to_string 2 = ''2''" "to_string 5 = ''5''" by code_simp+
  have c1: "stmt (exprLiterals False) False (SLet ''a'' None False False [] (EInt 1) (2, 5)) ?l I64 0 [] =
     Inl (CompileError (2, 5) (''variable '' @ [CHR 0x27] @ ''a'' @ [CHR 0x27] @ '' already declared''))"
    using t[where l = ?l and n = "''a''" and ex = "exprLiterals False" and decl = None and isConst = False
              and isOwned = False and fr = "[]" and v = "EInt 1" and s = "(2, 5)" and ret = I64 and d = 0
              and w = "[]", THEN conjunct1]
    by simp
  have r: "redeclares (\<lambda>x. ?l x \<noteq> None) (fn_b fn_example)"
    by (simp add: fn_example_def)
  have c2: "\<exists>e. block (exprLiterals False) False (fn_b fn_example) ?l I64 0 [] = Inl e"
    using t[where l = ?l and b = "fn_b fn_example" and ex = "exprLiterals False" and ret = I64 and d = 0
              and w = "[]", THEN conjunct2, THEN conjunct1] r
    by blast
  have rf: "redeclares (\<lambda>x. x \<in> set (map param_n (fn_p fn_example))) (fn_b fn_example)"
    by (simp add: fn_example_def)
  have c3: "\<exists>e. fn (exprLiterals False) False fn_example [] = Inl e"
    using t[where f = fn_example and ex = "exprLiterals False" and w = "[]",
            THEN conjunct2, THEN conjunct2, THEN conjunct1] rf
    by blast
  have c3a: "fn (exprLiterals False) False fn_example [] =
     Inl (CompileError (2, 5) (''variable '' @ [CHR 0x27] @ ''a'' @ [CHR 0x27] @ '' already declared''))"
    using c3 by (simp add: fn_def fn_example_def andThen_def req_def quoted_def exprLiterals_simps)
  have c4: "stmt (exprLiterals False) False (SIf (EBool True) [SLet ''b'' None False False [] (EInt 1) (2, 5)] [] (1, 1))
     Map.empty I64 0 [] =
     Inr (SIf (EBool True) [SLet ''b'' None False False [] (EInt 1) (2, 5)] [] (1, 1), Map.empty, [])"
    by (simp add: andThen_def req_def exprLiterals_simps can_def)
  have c4a: "block (exprLiterals False) False
     [SIf (EBool True) [SLet ''b'' None False False [] (EInt 1) (2, 5)] [] (1, 1),
      SLet ''b'' None False False [] (EInt 2) (3, 1)] Map.empty I64 0 [] =
     Inr ([SIf (EBool True) [SLet ''b'' None False False [] (EInt 1) (2, 5)] [] (1, 1),
           SLet ''b'' None False False [] (EInt 2) (3, 1)], [])"
    using t[where x = "SIf (EBool True) [SLet ''b'' None False False [] (EInt 1) (2, 5)] [] (1, 1)"
              and ex = "exprLiterals False" and su = False and l = Map.empty and ret = I64 and d = 0 and w = "[]"
              and x' = "SIf (EBool True) [SLet ''b'' None False False [] (EInt 1) (2, 5)] [] (1, 1)"
              and l' = Map.empty and w' = "[]",
            THEN conjunct2, THEN conjunct2, THEN conjunct2, THEN conjunct1] c4
    by (simp add: andThen_def req_def exprLiterals_simps can_def)
  have c5: "stmt (exprLiterals True) True (SLet ''a'' None False False [] (EInt 1) (2, 5)) ?l I64 0 [] =
     Inr (SLet ''a'' None False False [] (EInt 1) (2, 5), [''a'' \<mapsto> \<lparr>local_t = I64, local_isConst = False, local_isOwned = False, local_ownedFreeFn = []\<rparr>, ''a'' \<mapsto> \<lparr>local_t = I64, local_isConst = False, local_isOwned = False, local_ownedFreeFn = []\<rparr>],
          [''line 2, col 5: warning: superuser mode: variable '' @ [CHR 0x27] @ ''a'' @ [CHR 0x27] @
           '' already declared (continuing)''])"
    using t[where l = ?l and n = "''a''" and ex = "exprLiterals True" and decl = None and isConst = False
              and fr = "[]" and v = "EInt 1" and v' = "EInt 1" and vt = I64 and s = "(2, 5)" and ret = I64
              and d = 0 and w = "[]"
              and wa = "[''line 2, col 5: warning: superuser mode: variable '' @ [CHR 0x27] @ ''a'' @ [CHR 0x27] @
                          '' already declared (continuing)'']",
            THEN conjunct2, THEN conjunct2, THEN conjunct2, THEN conjunct2]
    by (simp add: exprLiterals_simps d can_def)
  from c1 c2 c3a c4 c4a c5 show ?thesis by blast
qed

text \<open>
  The claim as it is worded fails in superuser mode: there the body of \<^verbatim>\<open>fn f(a: i64) -> i64\<close>
  that declares \<^verbatim>\<open>a\<close> again inside an \<^verbatim>\<open>if\<close> is accepted with a warning.  And the rule is about
  \<^verbatim>\<open>declare\<close> only: outside superuser mode a \<^verbatim>\<open>for\<close> loop whose variable is the parameter \<^verbatim>\<open>a\<close>
  is accepted without a warning.
\<close>

theorem superuser_mode_accepts_a_redeclared_parameter:
  "fn (exprLiterals True) True fn_example [] =
     Inr (fn_b fn_example,
          [''line 2, col 5: warning: superuser mode: variable '' @ [CHR 0x27] @ ''a'' @ [CHR 0x27] @
           '' already declared (continuing)'']) \<and>
   fn (exprLiterals False) False
      (fn_example\<lparr>fn_b := [SFor ''a'' (EInt 0) (EInt 3) (EInt 1) False [] (1, 1)]\<rparr>) [] =
     Inr ([SFor ''a'' (EInt 0) (EInt 3) (EInt 1) False [] (1, 1)], [])"
proof -
  have d: "to_string 2 = ''2''" "to_string 5 = ''5''" by code_simp+
  show ?thesis
    by (simp add: fn_def fn_example_def andThen_def req_def quoted_def exprLiterals_simps can_def warn_def d)
qed

text \<open>
  Claim C2.  The program of scenario E declares \<^verbatim>\<open>declare owned p = P(7)\<close> for the class \<^verbatim>\<open>P\<close>,
  whose constructor the parser turns into the function \<^verbatim>\<open>P(v: i64) -> i64\<close>.  The type checker
  takes the free function of an owned handle from \<^verbatim>\<open>ownedFreeFnForCtor\<close>, which knows the built-in
  constructors only, and throws; the parser's \<^verbatim>\<open>constructorFreeFnFromExpr\<close> answers
  \<^verbatim>\<open>object_free\<close> for the same expression.
\<close>

theorem declare_owned_with_class_constructor_is_rejected:
  "stmt (exprFragment False sigs_scenario_E (\<lambda>n. None) (\<lambda>e. False) (3, 19))
        False (SLet ''p'' None False True [] (ECall ''P'' [EInt 7]) (3, 15)) Map.empty Void 0 [] =
     Inl (CompileError (3, 15) ''declare owned requires constructor call that has a matching free function'') \<and>
   stmt (exprFragment False sigs_scenario_E (\<lambda>n. None) (\<lambda>e. False) (3, 19))
        False (SLet ''p'' None False True [] (ECall ''object_new'' []) (3, 15)) Map.empty Void 0 [] =
     Inr (SLet ''p'' None False True ''object_free'' (ECall ''object_new'' []) (3, 15),
          [''p'' \<mapsto> \<lparr>local_t = I64, local_isConst = False, local_isOwned = True,
                         local_ownedFreeFn = ''object_free''\<rparr>],
          []) \<and>
   ownedFreeFnForCtor (ECall ''P'' [EInt 7]) = [] \<and>
   constructorFreeFnFromExpr (\<lambda>c. c = ''P'') (ECall ''P'' [EInt 7]) = ''object_free''"
  by (simp add: andThen_def req_def callGeneral_def resolveOverload_def canonicalSuperuserCallName_def
        outside_fragment_def failVoid_def can_def ownedFreeFnForCtor_def constructorFreeFnFromExpr_def
        sigs_scenario_E_def)

section \<open>Properties of the closed forms of reduction loops\<close>


lemma optForPairCoupled_scenario_D_swapped:
  "optForPairCoupled False ''i'' False 0 5 1 (rev body_scenario_D) =
     Some [SAssign ''acc'' (EBinary Add (EVar ''acc'') (EBinary Add (EBinary Mul (EVar ''state'') (EInt 5) []) (EInt 20) []) []) (1, 40),
           SAssign ''state'' (EBinary Add (EVar ''state'') (EInt 15) []) (1, 60)]"
  by code_simp

text \<open>
  The modular-linear reduction on \<^verbatim>\<open>for i in 0..3 step 1 do acc = acc + ((i - 5) % 3) end\<close>: the
  loop is replaced by \<^verbatim>\<open>acc = acc + 3\<close>, and 3 is the sum of the non-negative residues of
  \<open>-5\<close>, \<open>-4\<close>, \<open>-3\<close> modulo 3 (the truncating remainders of C sum to \<open>-3\<close>).
\<close>

lemma optForSingleReduction_mod_linear_example:
  "optForSingleReduction False ''i'' False 0 3 1 body_mod_linear (1, 1) =
     Some (SAssign ''acc'' (EBinary Add (EVar ''acc'') (EInt 3) []) (1, 1)) \<and>
   modLinearSeriesSumI64 3 0 1 1 (- 5) 3 = Some ((- 5) mod 3 + (- 4) mod 3 + (- 3) mod 3) \<and>
   ((- 5) smod 3 + (- 4) smod 3 + (- 3) smod (3 :: int)) = - 3"
  by code_simp



text \<open>
  Claim C4 (the code departs from it).  The pair-coupled pattern is matched in either order of
  its two assignments: after \<^verbatim>\<open>tryFoldPair\<close> has failed on the pair \<open>(r0, r1)\<close>, \<^verbatim>\<open>optBlock\<close>
  tries it on \<open>(r1, r0)\<close>, with the same closed form.  That closed form is the sum of the values
  \<^verbatim>\<open>state\<close> has before its update.  For the loop
  \<^verbatim>\<open>for i in 0..5 step 1 do state = state + (i + 1); acc = acc + state end\<close>, where \<^verbatim>\<open>state\<close> is
  updated first, the loop run iteration by iteration ends with \<^verbatim>\<open>acc = 35\<close>, and the statements
  that replace it end with \<^verbatim>\<open>acc = 20\<close>.
\<close>

theorem pair_coupled_reduction_ignores_the_order_of_the_assignments:
  "rev body_scenario_D =
     [SAssign ''state'' (EBinary Add (EVar ''state'') (EBinary Add (EVar ''i'') (EInt 1) []) []) (1, 60),
      SAssign ''acc'' (EBinary Add (EVar ''acc'') (EVar ''state'') []) (1, 40)] \<and>
   optForPairCoupled False ''i'' False 0 5 1 (rev body_scenario_D) =
     Some [SAssign ''acc'' (EBinary Add (EVar ''acc'') (EBinary Add (EBinary Mul (EVar ''state'') (EInt 5) []) (EInt 20) []) []) (1, 40),
           SAssign ''state'' (EBinary Add (EVar ''state'') (EInt 15) []) (1, 60)] \<and>
   for_loop_spec 40 ''i'' 0 5 1 (rev body_scenario_D)
     \<lparr>st_vars = [(''state'', VInt 0), (''acc'', VInt 0)], st_out = []\<rparr> =
     Some \<lparr>st_vars = [(''state'', VInt 15), (''acc'', VInt 35)], st_out = []\<rparr> \<and>
   exec_block 20 (the (optForPairCoupled False ''i'' False 0 5 1 (rev body_scenario_D)))
     \<lparr>st_vars = [(''state'', VInt 0), (''acc'', VInt 0)], st_out = []\<rparr> =
     Some (Normal, \<lparr>st_vars = [(''state'', VInt 15), (''acc'', VInt 20)], st_out = []\<rparr>)"
proof (intro conjI)
  show "rev body_scenario_D =
     [SAssign ''state'' (EBinary Add (EVar ''state'') (EBinary Add (EVar ''i'') (EInt 1) []) []) (1, 60),
      SAssign ''acc'' (EBinary Add (EVar ''acc'') (EVar ''state'') []) (1, 40)]"
    by (simp add: body_scenario_D_def)
  show "optForPairCoupled False ''i'' False 0 5 1 (rev body_scenario_D) =
     Some [SAssign ''acc'' (EBinary Add (EVar ''acc'') (EBinary Add (EBinary Mul (EVar ''state'') (EInt 5) []) (EInt 20) []) []) (1, 40),
           SAssign ''state'' (EBinary Add (EVar ''state'') (EInt 15) []) (1, 60)]"
    by (rule optForPairCoupled_scenario_D_swapped)
  show "for_loop_spec 40 ''i'' 0 5 1 (rev body_scenario_D)
     \<lparr>st_vars = [(''state'', VInt 0), (''acc'', VInt 0)], st_out = []\<rparr> =
     Some \<lparr>st_vars = [(''state'', VInt 15), (''acc'', VInt 35)], st_out = []\<rparr>"
    by code_simp
  show "exec_block 20 (the (optForPairCoupled False ''i'' False 0 5 1 (rev body_scenario_D)))
     \<lparr>st_vars = [(''state'', VInt 0), (''acc'', VInt 0)], st_out = []\<rparr> =
     Some (Normal, \<lparr>st_vars = [(''state'', VInt 15), (''acc'', VInt 20)], st_out = []\<rparr>)"
    unfolding optForPairCoupled_scenario_D_swapped by code_simp
qed

end
